theory Spec2Isabelle
  imports Complex_Main "HOL-Library.AList"
begin

section \<open>Values and exceptions\<close>

text \<open>
  The engine stores untyped Python scalars. A naive \<open>datetime\<close> is its seven fields.
  A float is a finite one, denoted by its exact value (Python compares numbers by value);
  NaN and the infinities are outside this model.
\<close>

datatype datetime = DateTime (dt_year: nat) (dt_month: nat) (dt_day: nat)
  (dt_hour: nat) (dt_minute: nat) (dt_second: nat) (dt_microsecond: nat)

datatype "value" = VNull | VInt int | VFloat rat | VText string | VBool bool | VDatetime datetime

text \<open>An exception is its class and its message.\<close>

datatype exn = ValueError string | TypeError string | OverflowError string | IndexError string
  | KeyError string

text \<open>
  The conversions of the Python runtime that \<open>Column.convert\<close> calls are not code of
  the repository: \<open>int(v)\<close>, \<open>float(v)\<close>, \<open>str(v)\<close> and \<open>datetime.strptime(s, fmt)\<close>
  are parameters of the model, each returning its value or the exception it raises.
\<close>

record pylib =
  py_int :: "value \<Rightarrow> exn + value"
  py_float :: "value \<Rightarrow> exn + value"
  py_str :: "value \<Rightarrow> string"
  strptime :: "string \<Rightarrow> string \<Rightarrow> exn + datetime"

text \<open>\<open>bool(v)\<close>: the truth value of a scalar.\<close>

fun py_bool :: "value \<Rightarrow> bool" where
  "py_bool VNull = False"
| "py_bool (VInt i) = (i \<noteq> 0)"
| "py_bool (VFloat r) = (r \<noteq> 0)"
| "py_bool (VText s) = (s \<noteq> [])"
| "py_bool (VBool b) = b"
| "py_bool (VDatetime d) = True"

text \<open>\<open>s.lower()\<close> on the letters A to Z.\<close>

definition lower_char :: "char \<Rightarrow> char" where
  "lower_char c = (if (65::nat) \<le> of_char c \<and> of_char c \<le> (90::nat) then char_of (of_char c + (32::nat)) else c)"

definition lower :: "string \<Rightarrow> string" where
  "lower s = map lower_char s"

section \<open>Column (types.py)\<close>

datatype DataType = T_INT | T_VARCHAR | T_FLOAT | T_BOOLEAN | T_DATETIME

fun DataType_value :: "DataType \<Rightarrow> string" where
  "DataType_value T_INT = ''INT''"
| "DataType_value T_VARCHAR = ''VARCHAR''"
| "DataType_value T_FLOAT = ''FLOAT''"
| "DataType_value T_BOOLEAN = ''BOOLEAN''"
| "DataType_value T_DATETIME = ''DATETIME''"

record column =
  col_name :: string
  data_type :: DataType
  col_length :: "int option"
  nullable :: bool
  primary_key :: bool
  unique :: bool
  col_default :: "value"

text \<open>The loop of \<open>convert\<close> over the accepted formats: the first that parses wins.\<close>

fun try_formats :: "pylib \<Rightarrow> string \<Rightarrow> string list \<Rightarrow> exn + value" where
  "try_formats L s [] = Inl (ValueError (''Cannot parse datetime: '' @ s))"
| "try_formats L s (fmt # fmts) =
     (case strptime L s fmt of
        Inr d \<Rightarrow> Inr (VDatetime d)
      | Inl (ValueError m) \<Rightarrow> try_formats L s fmts
      | Inl e \<Rightarrow> Inl e)"

definition datetime_formats :: "string list" where
  "datetime_formats = [''%Y-%m-%d %H:%M:%S'', ''%Y-%m-%d'', ''%Y-%m-%dT%H:%M:%S'']"

definition convert :: "pylib \<Rightarrow> column \<Rightarrow> value \<Rightarrow> exn + value" where
  "convert L c v =
     (if v = VNull then Inr VNull
      else case data_type c of
        T_INT \<Rightarrow> py_int L v
      | T_FLOAT \<Rightarrow> py_float L v
      | T_VARCHAR \<Rightarrow> Inr (VText (py_str L v))
      | T_BOOLEAN \<Rightarrow>
          (case v of
             VBool b \<Rightarrow> Inr v
           | VText s \<Rightarrow> Inr (VBool (lower s \<in> set [''true'', ''1'', ''yes'', ''t'']))
           | _ \<Rightarrow> Inr (VBool (py_bool v)))
      | T_DATETIME \<Rightarrow>
          (case v of
             VDatetime d \<Rightarrow> Inr v
           | VText s \<Rightarrow> try_formats L s datetime_formats
           | _ \<Rightarrow> Inl (ValueError (''Invalid datetime value: '' @ py_str L v))))"

definition cannot_be_null :: "column \<Rightarrow> string" where
  "cannot_be_null c = ''Column '' @ [CHR 0x27] @ col_name c @ [CHR 0x27] @ '' cannot be NULL''"

text \<open>
  \<open>validate\<close> returns \<open>(is_valid, error_message)\<close>. Its \<open>try\<close> catches ValueError and
  TypeError only, so another exception of \<open>convert\<close> leaves \<open>validate\<close> as it is.
\<close>

definition validate :: "pylib \<Rightarrow> column \<Rightarrow> value \<Rightarrow> exn + (bool \<times> string option)" where
  "validate L c v =
     (if v = VNull then
        (if \<not> nullable c \<and> \<not> primary_key c then Inr (False, Some (cannot_be_null c))
         else Inr (True, None))
      else case convert L c v of
        Inl (ValueError m) \<Rightarrow>
          Inr (False, Some (''Type error for column '' @ [CHR 0x27] @ col_name c @ [CHR 0x27] @ '': '' @ m))
      | Inl (TypeError m) \<Rightarrow>
          Inr (False, Some (''Type error for column '' @ [CHR 0x27] @ col_name c @ [CHR 0x27] @ '': '' @ m))
      | Inl e \<Rightarrow> Inl e
      | Inr converted \<Rightarrow>
          (if converted = VNull then
             Inr (False, Some (''Invalid value for '' @ DataType_value (data_type c)))
           else case col_length c of
             Some n \<Rightarrow>
               (if data_type c = T_VARCHAR \<and> n \<noteq> 0 \<and> int (length (py_str L v)) > n then
                  Inr (False, Some (''Value exceeds maximum length '' @ py_str L (VInt n)
                     @ '' for column '' @ [CHR 0x27] @ col_name c @ [CHR 0x27]))
                else Inr (True, None))
           | None \<Rightarrow> Inr (True, None)))"

section \<open>Tokenizer (parser.py)\<close>

text \<open>
  The query text is a list of code points below 256; the character classes are those of
  Python's \<open>str.isspace\<close>, \<open>isdigit\<close>, \<open>isalpha\<close> and \<open>isalnum\<close> on that range.
  The tokenizer's position is the suffix of the query it has not read yet.
\<close>

definition isspace :: "char \<Rightarrow> bool" where
  "isspace c = (let n = (of_char c :: nat) in
     (9 \<le> n \<and> n \<le> 13) \<or> (28 \<le> n \<and> n \<le> 32) \<or> n = 133 \<or> n = 160)"

definition isdigit :: "char \<Rightarrow> bool" where
  "isdigit c = (let n = (of_char c :: nat) in
     (48 \<le> n \<and> n \<le> 57) \<or> n = 178 \<or> n = 179 \<or> n = 185)"

definition isalpha :: "char \<Rightarrow> bool" where
  "isalpha c = (let n = (of_char c :: nat) in
     (65 \<le> n \<and> n \<le> 90) \<or> (97 \<le> n \<and> n \<le> 122) \<or> n = 170 \<or> n = 181 \<or> n = 186
     \<or> (192 \<le> n \<and> n \<le> 214) \<or> (216 \<le> n \<and> n \<le> 246) \<or> 248 \<le> n)"

definition isalnum :: "char \<Rightarrow> bool" where
  "isalnum c = (let n = (of_char c :: nat) in
     isalpha c \<or> isdigit c \<or> (188 \<le> n \<and> n \<le> 190))"

text \<open>\<open>s.upper()\<close>, used only to compare with the ASCII keywords.\<close>

definition upper_char :: "char \<Rightarrow> char" where
  "upper_char c = (if (97::nat) \<le> of_char c \<and> of_char c \<le> (122::nat) then char_of (of_char c - (32::nat)) else c)"

definition upper :: "string \<Rightarrow> string" where
  "upper s = map upper_char s"

datatype token = Token (tok_type: string) (tok_value: string)

definition KEYWORDS :: "string list" where
  "KEYWORDS = [''SELECT'', ''FROM'', ''WHERE'', ''INSERT'', ''INTO'', ''VALUES'', ''UPDATE'',
     ''SET'', ''DELETE'', ''CREATE'', ''TABLE'', ''DROP'', ''INDEX'', ''ON'', ''PRIMARY'', ''KEY'',
     ''UNIQUE'', ''NOT'', ''NULL'', ''DEFAULT'', ''AND'', ''OR'', ''JOIN'', ''INNER'', ''LEFT'',
     ''RIGHT'', ''OUTER'', ''ORDER'', ''BY'', ''ASC'', ''DESC'', ''LIMIT'', ''INT'', ''VARCHAR'',
     ''FLOAT'', ''BOOLEAN'', ''DATETIME'']"

definition squote :: char where "squote = CHR 0x27"
definition dquote :: char where "dquote = CHR 0x22"
definition backslash :: char where "backslash = CHR 0x5C"
definition newline :: char where "newline = CHR 0x0A"

definition skip_whitespace :: "string \<Rightarrow> string" where
  "skip_whitespace q = dropWhile isspace q"

definition skip_comment :: "string \<Rightarrow> string" where
  "skip_comment q = dropWhile (\<lambda>c. c \<noteq> newline) q"

text \<open>
  The loop of \<open>_read_string\<close> after the opening quote: it stops at the first quote it
  meets, a backslash makes it step over the next character, and it also stops at the end
  of the input. It returns the text it passed and the input from where it stopped.
\<close>

fun scan_string :: "char \<Rightarrow> string \<Rightarrow> string \<times> string" where
  "scan_string quote [] = ([], [])"
| "scan_string quote [c] = (if c = quote then ([], [c]) else ([c], []))"
| "scan_string quote (c # d # cs) =
     (if c = quote then ([], c # d # cs)
      else if c = backslash then (case scan_string quote cs of (v, r) \<Rightarrow> (c # d # v, r))
      else (case scan_string quote (d # cs) of (v, r) \<Rightarrow> (c # v, r)))"

text \<open>\<open>_read_string\<close> at the opening quote; the closing quote, if any, is stepped over.\<close>

fun read_string :: "string \<Rightarrow> token \<times> string" where
  "read_string [] = (Token ''STRING'' [], [])"
| "read_string (quote # rest) =
     (case scan_string quote rest of (v, r) \<Rightarrow> (Token ''STRING'' v, drop 1 r))"

fun read_number :: "string \<Rightarrow> token \<times> string" where
  "read_number [] = (Token ''NUMBER'' [], [])"
| "read_number (c # rest) =
     (let sign = (if c = CHR ''-'' then [c] else []);
          r = (if c = CHR ''-'' then rest else c # rest);
          body = takeWhile (\<lambda>x. isdigit x \<or> x = CHR ''.'') r
      in (Token ''NUMBER'' (sign @ body), drop (length body) r))"

definition read_identifier :: "string \<Rightarrow> token \<times> string" where
  "read_identifier q =
     (let v = takeWhile (\<lambda>x. isalnum x \<or> x = CHR ''_'') q;
          token_type = (if upper v \<in> set KEYWORDS then ''KEYWORD'' else ''IDENTIFIER'')
      in (Token token_type (if token_type = ''KEYWORD'' then upper v else v), drop (length v) q))"

fun read_operator :: "string \<Rightarrow> token \<times> string" where
  "read_operator [] = (Token ''PUNCT'' [], [])"
| "read_operator [c] = (Token (if c \<in> set ''=<>!'' then ''OPERATOR'' else ''PUNCT'') [c], [])"
| "read_operator (c # d # rest) =
     (if [c, d] \<in> set [''<='', ''>='', ''!='', ''<>''] then (Token ''OPERATOR'' [c, d], rest)
      else (Token (if c \<in> set ''=<>!'' then ''OPERATOR'' else ''PUNCT'') [c], d # rest))"

text \<open>One round of the loop of \<open>tokenize\<close>: finished, failed, or a new state.\<close>

datatype step = Done | Failed exn | Next string "token list"

definition tokenize_step :: "string \<Rightarrow> token list \<Rightarrow> step" where
  "tokenize_step q tokens =
     (case skip_whitespace q of
        [] \<Rightarrow> Done
      | c # rest \<Rightarrow>
          if c = CHR ''-'' \<and> rest \<noteq> [] \<and> hd rest = CHR ''-'' then Next (skip_comment (c # rest)) tokens
          else if c = squote \<or> c = dquote then
            (case read_string (c # rest) of (t, q') \<Rightarrow> Next q' (tokens @ [t]))
          else if isdigit c \<or> (c = CHR ''-'' \<and> rest \<noteq> [] \<and> isdigit (hd rest)) then
            (case read_number (c # rest) of (t, q') \<Rightarrow> Next q' (tokens @ [t]))
          else if isalpha c \<or> c = CHR ''_'' then
            (case read_identifier (c # rest) of (t, q') \<Rightarrow> Next q' (tokens @ [t]))
          else if c \<in> set ''(),;=<>!*.'' then
            (case read_operator (c # rest) of (t, q') \<Rightarrow> Next q' (tokens @ [t]))
          else Failed (ValueError (''Unexpected character: '' @ [c])))"

lemma length_scan_string: "length (snd (scan_string quote s)) \<le> length s"
  by (induction quote s rule: scan_string.induct) (auto split: prod.splits)

lemma length_read_string: "length (snd (read_string (c # rest))) \<le> length rest"
  using length_scan_string [of c rest] by (auto split: prod.splits)

lemma length_read_number:
  "isdigit c \<or> c = CHR ''-'' \<Longrightarrow> length (snd (read_number (c # rest))) \<le> length rest"
  by (auto simp: Let_def)

lemma length_read_identifier:
  "isalnum c \<or> c = CHR ''_'' \<Longrightarrow> length (snd (read_identifier (c # rest))) \<le> length rest"
  by (auto simp: read_identifier_def Let_def)

lemma length_read_operator: "length (snd (read_operator (c # rest))) \<le> length rest"
  by (cases rest) auto

lemma length_skip_comment: "c \<noteq> newline \<Longrightarrow> length (skip_comment (c # rest)) \<le> length rest"
  by (simp add: skip_comment_def length_dropWhile_le)

lemma skip_whitespace_Cons: "skip_whitespace q = c # rest \<Longrightarrow> length rest < length q"
  using length_dropWhile_le [of isspace q] by (simp add: skip_whitespace_def)

lemma isalpha_isalnum: "isalpha c \<Longrightarrow> isalnum c"
  by (simp add: isalnum_def)

lemma tokenize_step_shorter:
  assumes "tokenize_step q tokens = Next q' tokens'"
  shows "length q' < length q"
proof (cases "skip_whitespace q")
  case Nil
  with assms show ?thesis by (simp add: tokenize_step_def)
next
  case (Cons c rest)
  have r: "length rest < length q" using Cons by (rule skip_whitespace_Cons)
  have "length q' \<le> length rest"
    using assms Cons length_read_string [of c rest] length_read_number [of c rest]
      length_read_identifier [of c rest] length_read_operator [of c rest]
      length_skip_comment [of c rest] isalpha_isalnum [of c]
    by (auto simp: tokenize_step_def newline_def split: if_splits prod.splits)
  with r show ?thesis by simp
qed

text \<open>The loop of \<open>tokenize\<close>; it ends because every round shortens the input.\<close>

function tokenize_loop :: "string \<Rightarrow> token list \<Rightarrow> exn + token list" where
  "tokenize_loop q tokens =
     (case tokenize_step q tokens of
        Done \<Rightarrow> Inr tokens
      | Failed e \<Rightarrow> Inl e
      | Next q' tokens' \<Rightarrow> tokenize_loop q' tokens')"
  by pat_completeness auto
termination
  by (relation "measure (\<lambda>(q, tokens). length q)") (auto dest: tokenize_step_shorter)

declare tokenize_loop.simps [simp del]

definition tokenize :: "string \<Rightarrow> exn + token list" where
  "tokenize query = tokenize_loop query []"

text \<open>
  \<open>loop_reaches query q tokens\<close>: tokenizing \<open>query\<close>, the loop stands at the head of a
  round with \<open>q\<close> left to read and \<open>tokens\<close> produced so far.
\<close>

inductive loop_reaches :: "string \<Rightarrow> string \<Rightarrow> token list \<Rightarrow> bool" for query where
  start: "loop_reaches query query []"
| round: "loop_reaches query q tokens \<Longrightarrow> tokenize_step q tokens = Next q' tokens'
    \<Longrightarrow> loop_reaches query q' tokens'"

text \<open>
  A literal opened by \<open>quote\<close> and followed by \<open>rest\<close> has no closing quote when the
  scan of \<open>_read_string\<close> runs to the end of the input.
\<close>

definition unterminated :: "char \<Rightarrow> string \<Rightarrow> bool" where
  "unterminated quote rest = (snd (scan_string quote rest) = [])"

lemma loop_reaches_result: "loop_reaches query q tokens \<Longrightarrow> tokenize_loop q tokens = tokenize query"
proof (induction rule: loop_reaches.induct)
  case start
  show ?case by (simp add: tokenize_def)
next
  case (round q tokens q' tokens')
  from round.hyps(2) have "tokenize_loop q tokens = tokenize_loop q' tokens'"
    by (subst tokenize_loop.simps) simp
  with round.IH show ?case by simp
qed

lemma scan_string_parts: "fst (scan_string quote s) @ snd (scan_string quote s) = s"
  by (induction quote s rule: scan_string.induct) (auto split: prod.splits)

lemma unterminated_text: "unterminated quote rest \<Longrightarrow> scan_string quote rest = (rest, [])"
  using scan_string_parts [of quote rest] by (simp add: unterminated_def prod_eq_iff)

lemma no_quote_unterminated: "quote \<notin> set rest \<Longrightarrow> unterminated quote rest"
  unfolding unterminated_def
  by (induction quote rest rule: scan_string.induct) (auto split: prod.splits)

section \<open>Comparisons of the Python runtime\<close>

text \<open>
  Python orders numbers (int, bool, float) among themselves by value, strings by code
  point and datetimes field by field; every other pair of operands raises TypeError.
  \<open>==\<close> never raises: numbers are equal by value, other values when they are the same.
\<close>

datatype cmp = LT | EQ | GT

fun num_of :: "value \<Rightarrow> rat option" where
  "num_of (VInt i) = Some (of_int i)"
| "num_of (VBool b) = Some (if b then 1 else 0)"
| "num_of (VFloat r) = Some r"
| "num_of v = None"

fun nats_cmp :: "nat list \<Rightarrow> nat list \<Rightarrow> cmp" where
  "nats_cmp [] [] = EQ"
| "nats_cmp [] (y # ys) = LT"
| "nats_cmp (x # xs) [] = GT"
| "nats_cmp (x # xs) (y # ys) = (if x < y then LT else if y < x then GT else nats_cmp xs ys)"

fun dt_fields :: "datetime \<Rightarrow> nat list" where
  "dt_fields (DateTime y m d h mi s us) = [y, m, d, h, mi, s, us]"

fun py_compare :: "value \<Rightarrow> value \<Rightarrow> cmp option" where
  "py_compare (VText s) (VText t) = Some (nats_cmp (map of_char s) (map of_char t))"
| "py_compare (VDatetime d) (VDatetime e) = Some (nats_cmp (dt_fields d) (dt_fields e))"
| "py_compare a b =
     (case (num_of a, num_of b) of
        (Some x, Some y) \<Rightarrow> Some (if x < y then LT else if y < x then GT else EQ)
      | _ \<Rightarrow> None)"

fun type_name :: "value \<Rightarrow> string" where
  "type_name VNull = ''NoneType''"
| "type_name (VInt i) = ''int''"
| "type_name (VFloat r) = ''float''"
| "type_name (VText s) = ''str''"
| "type_name (VBool b) = ''bool''"
| "type_name (VDatetime d) = ''datetime.datetime''"

definition not_supported :: "string \<Rightarrow> value \<Rightarrow> value \<Rightarrow> exn" where
  "not_supported opr a b = TypeError ([CHR 0x27] @ opr @ [CHR 0x27] @ '' not supported between instances of ''
     @ [CHR 0x27] @ type_name a @ [CHR 0x27] @ '' and '' @ [CHR 0x27] @ type_name b @ [CHR 0x27])"

definition py_lt :: "value \<Rightarrow> value \<Rightarrow> exn + bool" where
  "py_lt a b = (case py_compare a b of None \<Rightarrow> Inl (not_supported ''<'' a b) | Some c \<Rightarrow> Inr (c = LT))"

definition py_gt :: "value \<Rightarrow> value \<Rightarrow> exn + bool" where
  "py_gt a b = (case py_compare a b of None \<Rightarrow> Inl (not_supported ''>'' a b) | Some c \<Rightarrow> Inr (c = GT))"

definition py_le :: "value \<Rightarrow> value \<Rightarrow> exn + bool" where
  "py_le a b = (case py_compare a b of None \<Rightarrow> Inl (not_supported ''<='' a b) | Some c \<Rightarrow> Inr (c \<noteq> GT))"

definition py_ge :: "value \<Rightarrow> value \<Rightarrow> exn + bool" where
  "py_ge a b = (case py_compare a b of None \<Rightarrow> Inl (not_supported ''>='' a b) | Some c \<Rightarrow> Inr (c \<noteq> LT))"

definition py_eq :: "value \<Rightarrow> value \<Rightarrow> bool" where
  "py_eq a b = (case (num_of a, num_of b) of (Some x, Some y) \<Rightarrow> x = y | _ \<Rightarrow> a = b)"

section \<open>Exceptions in sequence, Python lists\<close>

text \<open>Sequencing: an exception of the first step ends the computation.\<close>

definition and_then :: "exn + 'a \<Rightarrow> ('a \<Rightarrow> exn + 'b) \<Rightarrow> exn + 'b" where
  "and_then m f = (case m of Inl e \<Rightarrow> Inl e | Inr x \<Rightarrow> f x)"

lemma and_then_cong [fundef_cong]:
  "m = m' \<Longrightarrow> (\<And>x. m' = Inr x \<Longrightarrow> f x = f' x) \<Longrightarrow> and_then m f = and_then m' f'"
  by (auto simp: and_then_def split: sum.splits)

lemma and_then_simps [simp]: "and_then (Inl e) f = Inl e" "and_then (Inr x) f = f x"
  by (simp_all add: and_then_def)

text \<open>Python's slices \<open>xs[:n]\<close> and \<open>xs[n:]\<close>, its indexing \<open>xs[i]\<close> and \<open>xs.insert(i, x)\<close>.\<close>

definition py_take :: "int \<Rightarrow> 'a list \<Rightarrow> 'a list" where
  "py_take n xs = (if 0 \<le> n then take (nat n) xs else take (length xs - nat (- n)) xs)"

definition py_drop :: "int \<Rightarrow> 'a list \<Rightarrow> 'a list" where
  "py_drop n xs = (if 0 \<le> n then drop (nat n) xs else drop (length xs - nat (- n)) xs)"

definition out_of_range :: exn where
  "out_of_range = IndexError ''list index out of range''"

definition py_nth :: "'a list \<Rightarrow> int \<Rightarrow> exn + 'a" where
  "py_nth xs i =
     (if 0 \<le> i \<and> i < int (length xs) then Inr (xs ! nat i)
      else if i < 0 \<and> - int (length xs) \<le> i then Inr (xs ! nat (int (length xs) + i))
      else Inl out_of_range)"

definition item :: "'a list \<Rightarrow> nat \<Rightarrow> exn + 'a" where
  "item xs i = (if i < length xs then Inr (xs ! i) else Inl out_of_range)"

definition insert_at :: "nat \<Rightarrow> 'a \<Rightarrow> 'a list \<Rightarrow> 'a list" where
  "insert_at i x xs = take i xs @ x # drop i xs"

definition del_at :: "nat \<Rightarrow> 'a list \<Rightarrow> 'a list" where
  "del_at i xs = take i xs @ drop (Suc i) xs"

section \<open>B-tree index (index.py)\<close>

text \<open>
  A node's \<open>keys\<close> and \<open>values\<close> are parallel lists that every operation changes in
  step; the model holds them as one list of (key, row index) pairs.
\<close>

datatype BTreeNode = BTreeNode (is_leaf: bool) (entries: "(value \<times> nat) list") (children: "BTreeNode list")

record BTreeIndex =
  bt_column_name :: string
  bt_order :: int
  bt_root :: BTreeNode
  bt_size :: int

definition BTreeIndex_init :: "string \<Rightarrow> int \<Rightarrow> BTreeIndex" where
  "BTreeIndex_init column t = \<lparr>bt_column_name = column, bt_order = t, bt_root = BTreeNode True [] [], bt_size = 0\<rparr>"

definition is_full :: "int \<Rightarrow> BTreeNode \<Rightarrow> bool" where
  "is_full t node = (int (length (entries node)) \<ge> 2 * t - 1)"

text \<open>The first loop of \<open>_search_node\<close>: the number of leading keys below \<open>key\<close>.\<close>

fun search_pos :: "value \<Rightarrow> (value \<times> nat) list \<Rightarrow> exn + nat" where
  "search_pos key [] = Inr 0"
| "search_pos key ((k, v) # es) =
     and_then (py_gt key k) (\<lambda>above. if above then and_then (search_pos key es) (\<lambda>i. Inr (Suc i)) else Inr 0)"

lemma item_mem: "item xs i = Inr c \<Longrightarrow> c \<in> set xs"
  by (auto simp: item_def split: if_splits)

lemma py_nth_mem: "py_nth xs i = Inr c \<Longrightarrow> c \<in> set xs"
  by (auto simp: py_nth_def split: if_splits)

lemma child_smaller: "c \<in> set (children node) \<Longrightarrow> size c < size node"
  using size_list_estimation' [of c "children node" "size c" size]
  by (cases node) (auto simp: less_Suc_eq_le)

function search_node :: "BTreeNode \<Rightarrow> value \<Rightarrow> exn + nat list" where
  "search_node node key =
     and_then (search_pos key (entries node)) (\<lambda>i.
       if i < length (entries node) \<and> py_eq key (fst (entries node ! i)) then
         (if is_leaf node then Inr [snd (entries node ! i)]
          else and_then (item (children node) (Suc i)) (\<lambda>c.
                 and_then (search_node c key) (\<lambda>found. Inr (snd (entries node ! i) # found))))
       else if is_leaf node then Inr []
       else and_then (item (children node) i) (\<lambda>c. search_node c key))"
  by pat_completeness auto
termination
  by (relation "measure (\<lambda>(node, key). size node)") (auto dest!: item_mem child_smaller)

declare search_node.simps [simp del]

text \<open>
  \<open>_range_search_node\<close>: the loop over the keys from position \<open>i\<close>, then the visit of
  the last child.
\<close>

function range_search_from :: "BTreeNode \<Rightarrow> nat \<Rightarrow> value \<Rightarrow> value \<Rightarrow> exn + nat list" where
  "range_search_from node i start end' =
     (if i < length (entries node) then
        and_then (and_then (py_ge (fst (entries node ! i)) start)
                    (\<lambda>above. if above then py_le (fst (entries node ! i)) end' else Inr False)) (\<lambda>hit.
        and_then (if is_leaf node then Inr False else py_le (fst (entries node ! i)) end') (\<lambda>down.
        and_then (if down then and_then (item (children node) i) (\<lambda>c. range_search_from c 0 start end')
                  else Inr []) (\<lambda>below.
        and_then (range_search_from node (Suc i) start end') (\<lambda>rest.
          Inr ((if hit then [snd (entries node ! i)] else []) @ below @ rest)))))
      else if is_leaf node then Inr []
      else and_then (if entries node = [] then Inr True else py_le (fst (last (entries node))) end') (\<lambda>down.
           if down then and_then (py_nth (children node) (- 1)) (\<lambda>c. range_search_from c 0 start end')
           else Inr []))"
  by pat_completeness auto
termination
  by (relation "measures [\<lambda>(node, i, start, end'). size node, \<lambda>(node, i, start, end'). length (entries node) - i]")
     (auto dest!: item_mem py_nth_mem child_smaller)

declare range_search_from.simps [simp del]

definition range_search_node :: "BTreeNode \<Rightarrow> value \<Rightarrow> value \<Rightarrow> exn + nat list" where
  "range_search_node node start end' = range_search_from node 0 start end'"

definition btree_search :: "BTreeIndex \<Rightarrow> value \<Rightarrow> exn + nat list" where
  "btree_search idx key = search_node (bt_root idx) key"

definition btree_range_search :: "BTreeIndex \<Rightarrow> value \<Rightarrow> value \<Rightarrow> exn + nat list" where
  "btree_range_search idx start end' = range_search_node (bt_root idx) start end'"

text \<open>
  \<open>_split_child\<close>. The child is cut down before the key for the parent is read, so
  \<open>mid < len(full_child.keys)\<close> compares with the shortened list.
\<close>

definition split_child :: "int \<Rightarrow> BTreeNode \<Rightarrow> nat \<Rightarrow> exn + BTreeNode" where
  "split_child t parent index =
     and_then (item (children parent) index) (\<lambda>full_child.
       let mid = t - 1;
           new_child = BTreeNode (is_leaf full_child) (py_drop (mid + 1) (entries full_child))
             (if is_leaf full_child then [] else py_drop (mid + 1) (children full_child));
           cut_child = BTreeNode (is_leaf full_child) (py_take mid (entries full_child))
             (if is_leaf full_child then children full_child else py_take (mid + 1) (children full_child))
       in and_then (if mid < int (length (entries cut_child)) then py_nth (entries cut_child) mid
                    else py_nth (entries new_child) 0) (\<lambda>up.
            Inr (BTreeNode (is_leaf parent) (insert_at index up (entries parent))
                   (insert_at (Suc index) new_child ((children parent)[index := cut_child])))))"

text \<open>
  The loops of \<open>_insert_non_full\<close> walk the keys from the right, so they are written on
  the reversed list: the place of the new entry in a leaf, and the child to descend into.
\<close>

fun insert_rev :: "value \<Rightarrow> nat \<Rightarrow> (value \<times> nat) list \<Rightarrow> exn + (value \<times> nat) list" where
  "insert_rev key row_index [] = Inr [(key, row_index)]"
| "insert_rev key row_index ((k, v) # es) =
     and_then (py_lt key k) (\<lambda>below.
       if below then and_then (insert_rev key row_index es) (\<lambda>es'. Inr ((k, v) # es'))
       else Inr ((key, row_index) # (k, v) # es))"

fun descend_rev :: "value \<Rightarrow> (value \<times> nat) list \<Rightarrow> exn + nat" where
  "descend_rev key [] = Inr 0"
| "descend_rev key ((k, v) # es) =
     and_then (py_lt key k) (\<lambda>below. if below then descend_rev key es else Inr (Suc (length es)))"

fun height :: "BTreeNode \<Rightarrow> nat" where
  "height (BTreeNode leaf es cs) = Suc (foldr max (map height cs) 0)"

lemma foldr_max_ge: "c \<in> set cs \<Longrightarrow> height c \<le> foldr max (map height cs) 0"
  by (induction cs) auto

lemma foldr_max_le: "(\<And>c. c \<in> set cs \<Longrightarrow> height c \<le> n) \<Longrightarrow> foldr max (map height cs) 0 \<le> n"
  by (induction cs) auto

lemma height_child: "c \<in> set (children node) \<Longrightarrow> height c < height node"
  using foldr_max_ge [of c "children node"] by (cases node) (auto simp: less_Suc_eq_le)

lemma set_py_take: "set (py_take n xs) \<subseteq> set xs"
  by (auto simp: py_take_def dest: in_set_takeD)

lemma set_py_drop: "set (py_drop n xs) \<subseteq> set xs"
  by (auto simp: py_drop_def dest: in_set_dropD)

lemma set_insert_at: "set (insert_at i x xs) = insert x (set xs)"
proof -
  have "set (take i xs) \<union> set (drop i xs) = set xs"
    by (metis append_take_drop_id set_append)
  then show ?thesis by (auto simp: insert_at_def)
qed

lemma height_part:
  assumes "set cs' \<subseteq> set (children c)"
  shows "height (BTreeNode leaf es cs') \<le> height c"
proof -
  have "foldr max (map height cs') 0 \<le> foldr max (map height (children c)) 0"
    using assms by (intro foldr_max_le foldr_max_ge) auto
  then show ?thesis by (cases c) auto
qed

lemma split_child_height:
  assumes "split_child t parent index = Inr parent'" and "c \<in> set (children parent')"
  shows "height c < height parent"
proof -
  from assms(1) obtain full_child where fc: "item (children parent) index = Inr full_child"
    by (auto simp: split_child_def and_then_def split: sum.splits)
  then have mem: "full_child \<in> set (children parent)" by (rule item_mem)
  let ?mid = "t - 1"
  let ?new = "BTreeNode (is_leaf full_child) (py_drop (?mid + 1) (entries full_child))
             (if is_leaf full_child then [] else py_drop (?mid + 1) (children full_child))"
  let ?cut = "BTreeNode (is_leaf full_child) (py_take ?mid (entries full_child))
             (if is_leaf full_child then children full_child else py_take (?mid + 1) (children full_child))"
  have cs: "children parent' = insert_at (Suc index) ?new ((children parent)[index := ?cut])"
    using assms(1) fc by (auto simp: split_child_def Let_def and_then_def split: sum.splits)
  have "set ((children parent)[index := ?cut]) \<subseteq> insert ?cut (set (children parent))"
    by (rule set_update_subset_insert)
  with assms(2) cs have "c = ?new \<or> c = ?cut \<or> c \<in> set (children parent)"
    by (auto simp: set_insert_at)
  moreover have "height ?new \<le> height full_child"
    using set_py_drop [of "?mid + 1" "children full_child"] by (intro height_part) auto
  moreover have "height ?cut \<le> height full_child"
    using set_py_take [of "?mid + 1" "children full_child"] by (intro height_part) auto
  ultimately show ?thesis using height_child [OF mem] height_child [of c parent] by auto
qed

function insert_non_full :: "int \<Rightarrow> BTreeNode \<Rightarrow> value \<Rightarrow> nat \<Rightarrow> exn + BTreeNode" where
  "insert_non_full t node key row_index =
     (if is_leaf node then
        and_then (insert_rev key row_index (rev (entries node))) (\<lambda>es.
          Inr (BTreeNode (is_leaf node) (rev es) (children node)))
      else
        and_then (descend_rev key (rev (entries node))) (\<lambda>i.
        and_then (item (children node) i) (\<lambda>child.
        and_then (if is_full t child then
                    and_then (split_child t node i) (\<lambda>node'.
                    and_then (item (entries node') i) (\<lambda>up.
                    and_then (py_gt key (fst up)) (\<lambda>above.
                      Inr (node', if above then Suc i else i))))
                  else Inr (node, i)) (\<lambda>(node', j).
        and_then (item (children node') j) (\<lambda>child'.
        and_then (insert_non_full t child' key row_index) (\<lambda>child''.
          Inr (BTreeNode (is_leaf node') (entries node') ((children node')[j := child'']))))))))"
  by pat_completeness auto
termination
proof (relation "measure (\<lambda>(t, node, key, row_index). height node)", goal_cases)
  case 1
  show ?case by simp
next
  case (2 t node key row_index i child p node' j child')
  have "child' \<in> set (children node')" using 2 by (auto dest: item_mem)
  moreover have "node' = node \<or> (\<exists>t i. split_child t node i = Inr node')"
    using 2 by (auto simp: and_then_def split: if_splits sum.splits)
  ultimately have "height child' < height node"
    using height_child split_child_height by blast
  then show ?case by simp
qed

declare insert_non_full.simps [simp del]

definition btree_insert :: "BTreeIndex \<Rightarrow> value \<Rightarrow> nat \<Rightarrow> exn + BTreeIndex" where
  "btree_insert idx key row_index =
     and_then (if is_full (bt_order idx) (bt_root idx)
               then split_child (bt_order idx) (BTreeNode False [] [bt_root idx]) 0
               else Inr (bt_root idx)) (\<lambda>r.
     and_then (insert_non_full (bt_order idx) r key row_index) (\<lambda>r'.
       Inr (idx\<lparr>bt_root := r', bt_size := bt_size idx + 1\<rparr>)))"

text \<open>\<open>keys.index(key)\<close>: the position of the first key equal to \<open>key\<close>.\<close>

fun index_of :: "value \<Rightarrow> (value \<times> nat) list \<Rightarrow> nat option" where
  "index_of key [] = None"
| "index_of key ((k, v) # es) = (if py_eq k key then Some 0 else map_option Suc (index_of key es))"

text \<open>
  \<open>_delete_from_node\<close> returns whether it removed an entry; the loop over the children
  stops at the first child that did.
\<close>

fun delete_from_node :: "BTreeNode \<Rightarrow> value \<Rightarrow> nat \<Rightarrow> bool \<times> BTreeNode"
  and delete_from_children :: "BTreeNode list \<Rightarrow> value \<Rightarrow> nat \<Rightarrow> bool \<times> BTreeNode list" where
  "delete_from_node (BTreeNode leaf es cs) key row_index =
     (case (case index_of key es of
              Some i \<Rightarrow> if snd (es ! i) = row_index then Some i else None
            | None \<Rightarrow> None) of
        Some i \<Rightarrow> (True, BTreeNode leaf (del_at i es) (if \<not> leaf \<and> i < length cs then del_at i cs else cs))
      | None \<Rightarrow>
          if \<not> leaf then (case delete_from_children cs key row_index of (b, cs') \<Rightarrow> (b, BTreeNode leaf es cs'))
          else (False, BTreeNode leaf es cs))"
| "delete_from_children [] key row_index = (False, [])"
| "delete_from_children (c # cs) key row_index =
     (case delete_from_node c key row_index of
        (True, c') \<Rightarrow> (True, c' # cs)
      | (False, c') \<Rightarrow> (case delete_from_children cs key row_index of (b, cs') \<Rightarrow> (b, c' # cs')))"

definition btree_delete :: "BTreeIndex \<Rightarrow> value \<Rightarrow> nat \<Rightarrow> BTreeIndex" where
  "btree_delete idx key row_index =
     idx\<lparr>bt_root := snd (delete_from_node (bt_root idx) key row_index), bt_size := bt_size idx - 1\<rparr>"

fun collect_entries :: "BTreeNode \<Rightarrow> (value \<times> nat) list" where
  "collect_entries (BTreeNode leaf es cs) = es @ (if \<not> leaf then concat (map collect_entries cs) else [])"

fun insert_all :: "BTreeIndex \<Rightarrow> (value \<times> nat) list \<Rightarrow> exn + BTreeIndex" where
  "insert_all idx [] = Inr idx"
| "insert_all idx ((key, row_index) # es) = and_then (btree_insert idx key row_index) (\<lambda>idx'. insert_all idx' es)"

text \<open>A sequence of calls on one index; an exception of a call ends it.\<close>

datatype index_op = Insert "value" nat | Delete "value" nat

fun is_Insert :: "index_op \<Rightarrow> bool" where
  "is_Insert (Insert key row_index) = True"
| "is_Insert (Delete key row_index) = False"

fun run_ops :: "BTreeIndex \<Rightarrow> index_op list \<Rightarrow> exn + BTreeIndex" where
  "run_ops idx [] = Inr idx"
| "run_ops idx (Insert key row_index # ops) =
     and_then (btree_insert idx key row_index) (\<lambda>idx'. run_ops idx' ops)"
| "run_ops idx (Delete key row_index # ops) = run_ops (btree_delete idx key row_index) ops"

section \<open>Table (table.py)\<close>

text \<open>
  A Python dict keeps its keys in insertion order: it is an association list with distinct
  keys, read with \<open>map_of\<close> and written with \<open>AList.update\<close>. A deleted row leaves \<open>None\<close>
  in its slot. Row positions are list positions, so they are natural numbers.
  \<open>create_index\<close> is only ever called with its default \<open>index_type\<close>, so every index of a
  table is a \<open>BTreeIndex\<close> of order 3.
\<close>

type_synonym 'a dict = "(string \<times> 'a) list"

record Row =
  row_data :: "value dict"
  row_id :: int

record Table =
  tab_name :: string
  columns :: "column dict"
  column_order :: "string list"
  rows :: "Row option list"
  indexes :: "BTreeIndex dict"
  next_row_id :: int

text \<open>\<open>row[key]\<close> and \<open>row.get(key)\<close> are \<open>data.get(key)\<close>: \<open>None\<close> for a missing key.\<close>

definition dict_get :: "'a dict \<Rightarrow> string \<Rightarrow> 'a \<Rightarrow> 'a" where
  "dict_get d k dflt = (case map_of d k of None \<Rightarrow> dflt | Some v \<Rightarrow> v)"

definition row_get :: "Row \<Rightarrow> string \<Rightarrow> value" where
  "row_get r k = dict_get (row_data r) k VNull"

text \<open>Subscripting a slot: a tombstone is \<open>None\<close>, which has no \<open>__getitem__\<close>.\<close>

definition not_subscriptable :: exn where
  "not_subscriptable = TypeError ([CHR 0x27] @ ''NoneType'' @ [CHR 0x27] @ '' object is not subscriptable'')"

fun slot_get :: "Row option \<Rightarrow> string \<Rightarrow> exn + value" where
  "slot_get None k = Inl not_subscriptable"
| "slot_get (Some r) k = Inr (row_get r k)"

definition scan :: "Table \<Rightarrow> Row list" where
  "scan t = [r. Some r \<leftarrow> rows t]"

text \<open>The full scans of \<open>find_by_column\<close> and \<open>find_by_range\<close>, over every slot.\<close>

fun scan_equal :: "Row option list \<Rightarrow> string \<Rightarrow> value \<Rightarrow> exn + Row option list" where
  "scan_equal [] column_name v = Inr []"
| "scan_equal (slot # slots) column_name v =
     and_then (slot_get slot column_name) (\<lambda>x.
     and_then (scan_equal slots column_name v) (\<lambda>found.
       Inr (if py_eq x v then slot # found else found)))"

fun scan_between :: "Row option list \<Rightarrow> string \<Rightarrow> value \<Rightarrow> value \<Rightarrow> exn + Row option list" where
  "scan_between [] column_name start end' = Inr []"
| "scan_between (slot # slots) column_name start end' =
     and_then (slot_get slot column_name) (\<lambda>x.
     and_then (if x \<noteq> VNull then
                 and_then (py_le start x) (\<lambda>above. if above then py_le x end' else Inr False)
               else Inr False) (\<lambda>hit.
     and_then (scan_between slots column_name start end') (\<lambda>found.
       Inr (if hit then slot # found else found))))"

text \<open>\<open>[self.rows[i] for i in row_indices if i < len(self.rows)]\<close>\<close>

definition rows_at :: "Table \<Rightarrow> nat list \<Rightarrow> Row option list" where
  "rows_at t row_indices = map (\<lambda>i. rows t ! i) (filter (\<lambda>i. i < length (rows t)) row_indices)"

definition find_by_column :: "Table \<Rightarrow> string \<Rightarrow> value \<Rightarrow> exn + Row option list" where
  "find_by_column t column_name v =
     (case map_of (indexes t) column_name of
        Some idx \<Rightarrow> and_then (btree_search idx v) (\<lambda>row_indices. Inr (rows_at t row_indices))
      | None \<Rightarrow> scan_equal (rows t) column_name v)"

definition find_by_range :: "Table \<Rightarrow> string \<Rightarrow> value \<Rightarrow> value \<Rightarrow> exn + Row option list" where
  "find_by_range t column_name start end' =
     (case map_of (indexes t) column_name of
        Some idx \<Rightarrow> and_then (btree_range_search idx start end') (\<lambda>row_indices. Inr (rows_at t row_indices))
      | None \<Rightarrow> scan_between (rows t) column_name start end')"

text \<open>The loop of \<open>create_index\<close> over \<open>enumerate(self.rows)\<close>, from position \<open>i\<close>.\<close>

fun index_rows :: "BTreeIndex \<Rightarrow> string \<Rightarrow> nat \<Rightarrow> Row option list \<Rightarrow> exn + BTreeIndex" where
  "index_rows idx column_name i [] = Inr idx"
| "index_rows idx column_name i (slot # slots) =
     and_then (slot_get slot column_name) (\<lambda>v.
     and_then (if v \<noteq> VNull then btree_insert idx v i else Inr idx) (\<lambda>idx'.
       index_rows idx' column_name (Suc i) slots))"

definition quoted :: "string \<Rightarrow> string" where
  "quoted s = [CHR 0x27] @ s @ [CHR 0x27]"

definition create_index :: "Table \<Rightarrow> string \<Rightarrow> exn + Table" where
  "create_index t column_name =
     (if map_of (columns t) column_name = None then
        Inl (ValueError (''Column '' @ quoted column_name @ '' does not exist''))
      else if map_of (indexes t) column_name \<noteq> None then Inr t
      else and_then (index_rows (BTreeIndex_init column_name 3) column_name 0 (rows t)) (\<lambda>idx.
             Inr (t\<lparr>indexes := AList.update column_name idx (indexes t)\<rparr>)))"

text \<open>\<open>Table.__init__\<close>: an index for every primary-key or unique column.\<close>

fun create_key_indexes :: "Table \<Rightarrow> column list \<Rightarrow> exn + Table" where
  "create_key_indexes t [] = Inr t"
| "create_key_indexes t (col # cols) =
     and_then (if primary_key col \<or> unique col then create_index t (col_name col) else Inr t) (\<lambda>t'.
       create_key_indexes t' cols)"

definition Table_init :: "string \<Rightarrow> column list \<Rightarrow> exn + Table" where
  "Table_init name cols =
     create_key_indexes
       \<lparr>tab_name = name, columns = fold (\<lambda>col d. AList.update (col_name col) col d) cols [],
        column_order = map col_name cols, rows = [], indexes = [], next_row_id = 0\<rparr> cols"

text \<open>
  \<open>validate_row\<close> as \<open>insert\<close> calls it (\<open>is_update = False\<close>, no excluded row): first
  the unknown columns, then every column of the schema in order.
\<close>

fun unknown_column :: "column dict \<Rightarrow> string list \<Rightarrow> string option" where
  "unknown_column cols [] = None"
| "unknown_column cols (k # ks) = (if map_of cols k = None then Some k else unknown_column cols ks)"

fun validate_columns :: "pylib \<Rightarrow> Table \<Rightarrow> value dict \<Rightarrow> column dict \<Rightarrow> exn + (bool \<times> string option)" where
  "validate_columns L t data' [] = Inr (True, None)"
| "validate_columns L t data' ((cname, col) # cols) =
     (let v = dict_get data' cname VNull in
      and_then (validate L col v) (\<lambda>(is_valid, error).
        if \<not> is_valid then Inr (False, error)
        else and_then (if (unique col \<or> primary_key col) \<and> v \<noteq> VNull then find_by_column t cname v
                       else Inr []) (\<lambda>existing_rows.
          if existing_rows \<noteq> [] then
            Inr (False, Some (''Duplicate value for '' @ (if primary_key col then ''PRIMARY KEY'' else ''UNIQUE'')
                   @ '' column '' @ quoted cname))
          else validate_columns L t data' cols)))"

definition validate_row :: "pylib \<Rightarrow> Table \<Rightarrow> value dict \<Rightarrow> exn + (bool \<times> string option)" where
  "validate_row L t data' =
     (case unknown_column (columns t) (map fst data') of
        Some k \<Rightarrow> Inr (False, Some (''Unknown column: '' @ quoted k))
      | None \<Rightarrow> validate_columns L t data' (columns t))"

text \<open>The first loop of \<open>insert\<close>: the given value converted, else the default, else NULL.\<close>

fun fill_defaults :: "pylib \<Rightarrow> column dict \<Rightarrow> value dict \<Rightarrow> value dict \<Rightarrow> exn + value dict" where
  "fill_defaults L [] data' full_data = Inr full_data"
| "fill_defaults L ((cname, col) # cols) data' full_data =
     (case map_of data' cname of
        Some v \<Rightarrow> and_then (convert L col v) (\<lambda>v'. fill_defaults L cols data' (AList.update cname v' full_data))
      | None \<Rightarrow>
          fill_defaults L cols data'
            (AList.update cname (if col_default col \<noteq> VNull then col_default col else VNull) full_data))"

text \<open>The last loop of \<open>insert\<close>: the new row enters every index whose column it fills.\<close>

fun index_row :: "BTreeIndex dict \<Rightarrow> Row \<Rightarrow> nat \<Rightarrow> exn + BTreeIndex dict" where
  "index_row [] r row_index = Inr []"
| "index_row ((cname, idx) # idxs) r row_index =
     and_then (if row_get r cname \<noteq> VNull then btree_insert idx (row_get r cname) row_index else Inr idx) (\<lambda>idx'.
     and_then (index_row idxs r row_index) (\<lambda>idxs'. Inr ((cname, idx') # idxs')))"

text \<open>
  The outcome of a call that changes the table: it returned, with the table it left; or
  it raised and left the table it says; or it raised while it was updating the indexes,
  after it had stored the row, and the state it left is not described.
\<close>

datatype 'a outcome = Returned 'a Table | Raised exn Table | Aborted exn

definition table_insert :: "pylib \<Rightarrow> Table \<Rightarrow> value dict \<Rightarrow> Row outcome" where
  "table_insert L t data' =
     (case fill_defaults L (columns t) data' [] of
        Inl e \<Rightarrow> Raised e t
      | Inr full_data \<Rightarrow>
          (case validate_row L t full_data of
             Inl e \<Rightarrow> Raised e t
           | Inr (False, error) \<Rightarrow>
               Raised (ValueError (''Validation error: '' @ (case error of None \<Rightarrow> ''None'' | Some m \<Rightarrow> m))) t
           | Inr (True, error) \<Rightarrow>
               (let r = \<lparr>row_data = full_data, row_id = next_row_id t\<rparr>;
                    row_index = length (rows t)
                in case index_row (indexes t) r row_index of
                     Inl e \<Rightarrow> Aborted e
                   | Inr idxs \<Rightarrow>
                       Returned r (t\<lparr>rows := rows t @ [Some r], indexes := idxs,
                                    next_row_id := next_row_id t + 1\<rparr>))))"

text \<open>
  \<open>delete\<close>. Reading a column of a tombstone raises in the first round of the loop over
  the indexes; \<open>BTreeIndex.delete\<close> never raises.
\<close>

fun decimal :: "nat \<Rightarrow> string" where
  "decimal n = (if n < 10 then [char_of (48 + n)] else decimal (n div 10) @ [char_of (48 + n mod 10)])"

declare decimal.simps [simp del]

definition table_delete :: "Table \<Rightarrow> nat \<Rightarrow> unit outcome" where
  "table_delete t row_index =
     (if row_index \<ge> length (rows t) then
        Raised (ValueError (''Invalid row index: '' @ decimal row_index)) t
      else case rows t ! row_index of
        None \<Rightarrow> (if indexes t = [] then Returned () (t\<lparr>rows := (rows t)[row_index := None]\<rparr>)
                 else Raised not_subscriptable t)
      | Some r \<Rightarrow>
          Returned () (t\<lparr>indexes := map (\<lambda>(cname, idx).
                             (cname, if row_get r cname \<noteq> VNull then btree_delete idx (row_get r cname) row_index
                                     else idx)) (indexes t),
                          rows := (rows t)[row_index := None]\<rparr>))"

text \<open>
  A column rejects the row that \<open>insert\<close> has built when \<open>validate\<close> refuses its value
  (NULL in a NOT NULL column, a VARCHAR over its length, a value of the wrong type), or
  when it is a primary-key or unique column and \<open>find_by_column\<close> finds a row with
  that value.
\<close>

definition column_rejects :: "pylib \<Rightarrow> Table \<Rightarrow> value dict \<Rightarrow> string \<Rightarrow> column \<Rightarrow> bool" where
  "column_rejects L t full_data cname col =
     (let v = dict_get full_data cname VNull in
      (case validate L col v of Inr (False, m) \<Rightarrow> True | _ \<Rightarrow> False)
      \<or> ((unique col \<or> primary_key col) \<and> v \<noteq> VNull
          \<and> (case find_by_column t cname v of Inr (r # rs) \<Rightarrow> True | _ \<Rightarrow> False)))"

text \<open>
  A sequence of inserts and deletes on one table. It yields the row ids that the inserts
  which returned have assigned, in order, and the table it leaves; it yields nothing when
  a call aborts, since the model does not describe the table after that.
\<close>

datatype table_op = InsertRow "value dict" | DeleteRow nat

fun run_table :: "pylib \<Rightarrow> Table \<Rightarrow> table_op list \<Rightarrow> (int list \<times> Table) option" where
  "run_table L t [] = Some ([], t)"
| "run_table L t (InsertRow d # ops) =
     (case table_insert L t d of
        Returned r t' \<Rightarrow> map_option (\<lambda>(ids, t''). (row_id r # ids, t'')) (run_table L t' ops)
      | Raised e t' \<Rightarrow> run_table L t' ops
      | Aborted e \<Rightarrow> None)"
| "run_table L t (DeleteRow i # ops) =
     (case table_delete t i of
        Returned u t' \<Rightarrow> run_table L t' ops
      | Raised e t' \<Rightarrow> run_table L t' ops
      | Aborted e \<Rightarrow> None)"

text \<open>Every live row has an id below the counter.\<close>

definition ids_below :: "Table \<Rightarrow> bool" where
  "ids_below t = list_all (\<lambda>r. row_id r < next_row_id t) (scan t)"

section \<open>Snapshots (storage.py, to_dict and from_dict)\<close>

text \<open>
  \<open>to_dict\<close> builds a Python object of dicts, lists and scalars. \<open>json.dump\<close> with
  \<open>default=str\<close> followed by \<open>json.load\<close> gives that object back with every datetime
  replaced by its \<open>str\<close> (tuples come back as lists, which the model does not tell apart).
  The snapshot file is modelled by the object that \<open>json.load\<close> reads from it.
\<close>

datatype pyobj = Scalar "value" | PyList "pyobj list" | PyDict "(string \<times> pyobj) list"

definition zero_padded :: "nat \<Rightarrow> nat \<Rightarrow> string" where
  "zero_padded width n = replicate (width - length (decimal n)) (CHR ''0'') @ decimal n"

text \<open>\<open>str(d)\<close> of a datetime: \<open>YYYY-MM-DD HH:MM:SS\<close>, with \<open>.ffffff\<close> when it has microseconds.\<close>

fun datetime_str :: "datetime \<Rightarrow> string" where
  "datetime_str (DateTime y m d h mi s us) =
     zero_padded 4 y @ ''-'' @ zero_padded 2 m @ ''-'' @ zero_padded 2 d @ '' ''
     @ zero_padded 2 h @ '':'' @ zero_padded 2 mi @ '':'' @ zero_padded 2 s
     @ (if us = 0 then [] else ''.'' @ zero_padded 6 us)"

fun json_roundtrip :: "pyobj \<Rightarrow> pyobj" where
  "json_roundtrip (Scalar (VDatetime d)) = Scalar (VText (datetime_str d))"
| "json_roundtrip (Scalar v) = Scalar v"
| "json_roundtrip (PyList xs) = PyList (map json_roundtrip xs)"
| "json_roundtrip (PyDict kvs) = PyDict (map (\<lambda>(k, x). (k, json_roundtrip x)) kvs)"

text \<open>
  Reading a snapshot. The records of the model are typed: a field of another type than
  \<open>to_dict\<close> writes ends the reading with TypeError.
\<close>

definition other_type :: exn where
  "other_type = TypeError ''snapshot field of another type''"

fun get_item :: "pyobj \<Rightarrow> string \<Rightarrow> exn + pyobj" where
  "get_item (PyDict kvs) k = (case map_of kvs k of Some x \<Rightarrow> Inr x | None \<Rightarrow> Inl (KeyError (quoted k)))"
| "get_item x k = Inl other_type"

fun get_or :: "pyobj \<Rightarrow> string \<Rightarrow> pyobj \<Rightarrow> exn + pyobj" where
  "get_or (PyDict kvs) k dflt = (case map_of kvs k of Some x \<Rightarrow> Inr x | None \<Rightarrow> Inr dflt)"
| "get_or x k dflt = Inl other_type"

fun as_value :: "pyobj \<Rightarrow> exn + value" where
  "as_value (Scalar v) = Inr v"
| "as_value x = Inl other_type"

fun as_text :: "pyobj \<Rightarrow> exn + string" where
  "as_text (Scalar (VText s)) = Inr s"
| "as_text x = Inl other_type"

fun as_int :: "pyobj \<Rightarrow> exn + int" where
  "as_int (Scalar (VInt i)) = Inr i"
| "as_int x = Inl other_type"

fun as_nat :: "pyobj \<Rightarrow> exn + nat" where
  "as_nat (Scalar (VInt i)) = (if 0 \<le> i then Inr (nat i) else Inl other_type)"
| "as_nat x = Inl other_type"

fun as_bool :: "pyobj \<Rightarrow> exn + bool" where
  "as_bool (Scalar (VBool b)) = Inr b"
| "as_bool x = Inl other_type"

fun as_int_option :: "pyobj \<Rightarrow> exn + int option" where
  "as_int_option (Scalar VNull) = Inr None"
| "as_int_option (Scalar (VInt i)) = Inr (Some i)"
| "as_int_option x = Inl other_type"

fun as_list :: "pyobj \<Rightarrow> exn + pyobj list" where
  "as_list (PyList xs) = Inr xs"
| "as_list x = Inl other_type"

fun as_dict :: "pyobj \<Rightarrow> exn + (string \<times> pyobj) list" where
  "as_dict (PyDict kvs) = Inr kvs"
| "as_dict x = Inl other_type"

text \<open>A list comprehension whose body may raise.\<close>

fun map_exn :: "('a \<Rightarrow> exn + 'b) \<Rightarrow> 'a list \<Rightarrow> exn + 'b list" where
  "map_exn f [] = Inr []"
| "map_exn f (x # xs) = and_then (f x) (\<lambda>y. and_then (map_exn f xs) (\<lambda>ys. Inr (y # ys)))"

definition Column_to_dict :: "column \<Rightarrow> pyobj" where
  "Column_to_dict c = PyDict [
     (''name'', Scalar (VText (col_name c))),
     (''data_type'', Scalar (VText (DataType_value (data_type c)))),
     (''length'', Scalar (case col_length c of None \<Rightarrow> VNull | Some n \<Rightarrow> VInt n)),
     (''nullable'', Scalar (VBool (nullable c))),
     (''primary_key'', Scalar (VBool (primary_key c))),
     (''unique'', Scalar (VBool (unique c))),
     (''default'', Scalar (col_default c))]"

definition DataType_of :: "string \<Rightarrow> exn + DataType" where
  "DataType_of s =
     (if s = ''INT'' then Inr T_INT else if s = ''VARCHAR'' then Inr T_VARCHAR
      else if s = ''FLOAT'' then Inr T_FLOAT else if s = ''BOOLEAN'' then Inr T_BOOLEAN
      else if s = ''DATETIME'' then Inr T_DATETIME
      else Inl (ValueError (quoted s @ '' is not a valid DataType'')))"

definition Column_from_dict :: "pyobj \<Rightarrow> exn + column" where
  "Column_from_dict data' =
     and_then (and_then (get_item data' ''name'') as_text) (\<lambda>name.
     and_then (and_then (and_then (get_item data' ''data_type'') as_text) DataType_of) (\<lambda>ty.
     and_then (and_then (get_or data' ''length'' (Scalar VNull)) as_int_option) (\<lambda>len.
     and_then (and_then (get_or data' ''nullable'' (Scalar (VBool True))) as_bool) (\<lambda>nul.
     and_then (and_then (get_or data' ''primary_key'' (Scalar (VBool False))) as_bool) (\<lambda>pk.
     and_then (and_then (get_or data' ''unique'' (Scalar (VBool False))) as_bool) (\<lambda>un.
     and_then (and_then (get_or data' ''default'' (Scalar VNull)) as_value) (\<lambda>dflt.
       Inr \<lparr>col_name = name, data_type = ty, col_length = len, nullable = nul,
            primary_key = pk, unique = un, col_default = dflt\<rparr>)))))))"

definition Row_to_dict :: "Row \<Rightarrow> pyobj" where
  "Row_to_dict r = PyDict [
     (''row_id'', Scalar (VInt (row_id r))),
     (''data'', PyDict (map (\<lambda>(k, v). (k, Scalar v)) (row_data r)))]"

definition Row_from_dict :: "pyobj \<Rightarrow> exn + Row" where
  "Row_from_dict data' =
     and_then (and_then (get_item data' ''data'') as_dict) (\<lambda>kvs.
     and_then (map_exn (\<lambda>(k, x). and_then (as_value x) (\<lambda>v. Inr (k, v))) kvs) (\<lambda>d.
     and_then (and_then (get_item data' ''row_id'') as_int) (\<lambda>i.
       Inr \<lparr>row_data = d, row_id = i\<rparr>)))"

definition BTreeIndex_to_dict :: "BTreeIndex \<Rightarrow> pyobj" where
  "BTreeIndex_to_dict idx = PyDict [
     (''column_name'', Scalar (VText (bt_column_name idx))),
     (''order'', Scalar (VInt (bt_order idx))),
     (''size'', Scalar (VInt (bt_size idx))),
     (''entries'', PyList (map (\<lambda>(k, row_index). PyList [Scalar k, Scalar (VInt (int row_index))])
                            (collect_entries (bt_root idx))))]"

fun entry_of :: "pyobj \<Rightarrow> exn + value \<times> nat" where
  "entry_of (PyList [k, row_index]) =
     and_then (as_value k) (\<lambda>key. and_then (as_nat row_index) (\<lambda>i. Inr (key, i)))"
| "entry_of x = Inl other_type"

definition BTreeIndex_from_dict :: "pyobj \<Rightarrow> exn + BTreeIndex" where
  "BTreeIndex_from_dict data' =
     and_then (and_then (get_item data' ''column_name'') as_text) (\<lambda>name.
     and_then (and_then (get_item data' ''order'') as_int) (\<lambda>t.
     and_then (and_then (and_then (get_item data' ''entries'') as_list) (map_exn entry_of)) (\<lambda>es.
       insert_all (BTreeIndex_init name t) es)))"

definition Table_to_dict :: "Table \<Rightarrow> pyobj" where
  "Table_to_dict t = PyDict [
     (''name'', Scalar (VText (tab_name t))),
     (''columns'', PyList (map (\<lambda>(k, c). Column_to_dict c) (columns t))),
     (''column_order'', PyList (map (\<lambda>k. Scalar (VText k)) (column_order t))),
     (''rows'', PyList (map (\<lambda>slot. case slot of Some r \<Rightarrow> Row_to_dict r | None \<Rightarrow> Scalar VNull) (rows t))),
     (''indexes'', PyDict (map (\<lambda>(k, idx). (k, BTreeIndex_to_dict idx)) (indexes t))),
     (''next_row_id'', Scalar (VInt (next_row_id t)))]"

text \<open>
  The loops of \<open>Table.from_dict\<close>. A slot that is \<open>None\<close> stays \<open>None\<close>. An index entry
  without \<open>order\<close> would be a \<open>SimpleIndex\<close>, which this model does not have.
\<close>

fun slot_from_dict :: "pyobj \<Rightarrow> exn + Row option" where
  "slot_from_dict (Scalar VNull) = Inr None"
| "slot_from_dict x = and_then (Row_from_dict x) (\<lambda>r. Inr (Some r))"

fun restore_indexes :: "BTreeIndex dict \<Rightarrow> (string \<times> pyobj) list \<Rightarrow> exn + BTreeIndex dict" where
  "restore_indexes idxs [] = Inr idxs"
| "restore_indexes idxs ((name, idx_data) # rest) =
     and_then (as_dict idx_data) (\<lambda>kvs.
       if map_of kvs ''order'' \<noteq> None then
         and_then (BTreeIndex_from_dict idx_data) (\<lambda>idx. restore_indexes (AList.update name idx idxs) rest)
       else Inl other_type)"

definition Table_from_dict :: "pyobj \<Rightarrow> exn + Table" where
  "Table_from_dict data' =
     and_then (and_then (and_then (get_item data' ''columns'') as_list) (map_exn Column_from_dict)) (\<lambda>cols.
     and_then (and_then (get_item data' ''name'') as_text) (\<lambda>name.
     and_then (Table_init name cols) (\<lambda>t.
     and_then (and_then (and_then (get_item data' ''column_order'') as_list) (map_exn as_text)) (\<lambda>ord.
     and_then (and_then (get_item data' ''next_row_id'') as_int) (\<lambda>next.
     and_then (and_then (and_then (get_item data' ''rows'') as_list) (map_exn slot_from_dict)) (\<lambda>slots.
     and_then (and_then (get_or data' ''indexes'' (PyDict [])) as_dict) (\<lambda>idx_items.
     and_then (restore_indexes (indexes t) idx_items) (\<lambda>idxs.
       Inr (t\<lparr>column_order := ord, next_row_id := next, rows := slots, indexes := idxs\<rparr>)))))))))"

record Database =
  db_name :: string
  tables :: "Table dict"

text \<open>\<open>save\<close> writes the file; \<open>now\<close> is the clock's \<open>isoformat\<close>.\<close>

definition save :: "string \<Rightarrow> Database \<Rightarrow> pyobj" where
  "save now db = json_roundtrip (PyDict [
     (''name'', Scalar (VText (db_name db))),
     (''created_at'', Scalar (VText now)),
     (''tables'', PyDict (map (\<lambda>(k, t). (k, Table_to_dict t)) (tables db)))])"

fun load_tables :: "Table dict \<Rightarrow> (string \<times> pyobj) list \<Rightarrow> exn + Table dict" where
  "load_tables ts [] = Inr ts"
| "load_tables ts ((table_name, table_data) # rest) =
     and_then (Table_from_dict table_data) (\<lambda>t. load_tables (AList.update table_name t ts) rest)"

text \<open>\<open>load\<close> of the file's content \<open>file\<close> into the instance \<open>db\<close>.\<close>

definition load :: "pyobj \<Rightarrow> Database \<Rightarrow> exn + Database" where
  "load file db =
     and_then (and_then (get_or file ''name'' (Scalar (VText (db_name db)))) as_text) (\<lambda>name.
     and_then (and_then (get_or file ''tables'' (PyDict [])) as_dict) (\<lambda>items.
     and_then (load_tables [] items) (\<lambda>ts.
       Inr \<lparr>db_name = name, tables = ts\<rparr>)))"

section \<open>Query executor (executor.py)\<close>

text \<open>The parsed SELECT statement, as the parser's dictionary holds it.\<close>

record join =
  join_type :: string
  join_table :: string
  on_left :: string
  on_right :: string

datatype condition =
  Logical string condition condition
| Comparison string string "value"

record select_query =
  sel_columns :: "string list"
  sel_table :: string
  sel_joins :: "join list"
  sel_where :: "condition option"
  sel_order_by :: "(string \<times> string) option"
  sel_limit :: "int option"

record QueryResult =
  res_columns :: "string list"
  res_rows :: "value dict list"
  res_message :: "string option"

definition get_table :: "Database \<Rightarrow> string \<Rightarrow> Table option" where
  "get_table db name = map_of (tables db) name"

definition does_not_exist :: "string \<Rightarrow> exn" where
  "does_not_exist name = ValueError (''Table '' @ quoted name @ '' does not exist'')"

text \<open>\<open>col.split(".", 1)[1]\<close> when \<open>"." in col\<close>, else the name itself.\<close>

definition has_dot :: "string \<Rightarrow> bool" where
  "has_dot s = (CHR ''.'' \<in> set s)"

definition after_dot :: "string \<Rightarrow> string" where
  "after_dot s = (if has_dot s then tl (dropWhile (\<lambda>c. c \<noteq> CHR ''.'') s) else s)"

text \<open>The row that a join builds from a base row and a row of the joined table.\<close>

definition base_part :: "string \<Rightarrow> Row \<Rightarrow> value dict" where
  "base_part base_name base_row =
     fold (\<lambda>(cname, v) merged. AList.update cname v (AList.update (base_name @ ''.'' @ cname) v merged))
       (row_data base_row) []"

definition merge_rows :: "string \<Rightarrow> string \<Rightarrow> Row \<Rightarrow> Row \<Rightarrow> Row" where
  "merge_rows base_name join_name base_row join_row =
     \<lparr>row_data = fold (\<lambda>(cname, v) merged.
          (let merged' = AList.update (join_name @ ''.'' @ cname) v merged
           in if map_of merged' cname = None then AList.update cname v merged' else merged'))
          (row_data join_row) (base_part base_name base_row),
      row_id = row_id base_row\<rparr>"

definition pad_row :: "string \<Rightarrow> Table \<Rightarrow> Row \<Rightarrow> Row" where
  "pad_row base_name join_t base_row =
     \<lparr>row_data = fold (\<lambda>(cname, c) merged. AList.update (tab_name join_t @ ''.'' @ cname) VNull merged)
          (columns join_t) (base_part base_name base_row),
      row_id = row_id base_row\<rparr>"

text \<open>The nested loops of the INNER and of the LEFT branch.\<close>

definition inner_join :: "string \<Rightarrow> string \<Rightarrow> string \<Rightarrow> string \<Rightarrow> Row list \<Rightarrow> Row list \<Rightarrow> Row list" where
  "inner_join base_name join_name left_col_name right_col_name left_rows join_rows =
     concat (map (\<lambda>base_row.
       concat (map (\<lambda>join_row.
         if py_eq (row_get base_row left_col_name) (row_get join_row right_col_name)
         then [merge_rows base_name join_name base_row join_row] else []) join_rows)) left_rows)"

definition left_join :: "string \<Rightarrow> Table \<Rightarrow> string \<Rightarrow> string \<Rightarrow> Row list \<Rightarrow> Row list \<Rightarrow> Row list" where
  "left_join base_name join_t left_col_name right_col_name left_rows join_rows =
     concat (map (\<lambda>base_row.
       (let matches = concat (map (\<lambda>join_row.
              if py_eq (row_get base_row left_col_name) (row_get join_row right_col_name)
              then [merge_rows base_name (tab_name join_t) base_row join_row] else []) join_rows)
        in if matches = [] then [pad_row base_name join_t base_row] else matches)) left_rows)"

text \<open>The loop of \<open>_apply_joins\<close> over the joins, with \<open>result_rows\<close> as its state.\<close>

fun join_loop :: "Database \<Rightarrow> Table \<Rightarrow> Row list \<Rightarrow> join list \<Rightarrow> Row list \<Rightarrow> exn + Row list" where
  "join_loop db base_table base_rows [] result_rows = Inr result_rows"
| "join_loop db base_table base_rows (j # js) result_rows =
     (case get_table db (join_table j) of
        None \<Rightarrow> Inl (does_not_exist (join_table j))
      | Some join_t \<Rightarrow>
          (let join_rows = scan join_t;
               left_col_name = after_dot (on_left j);
               right_col_name = after_dot (on_right j);
               left_rows = (if result_rows = [] then base_rows else result_rows);
               joined_rows =
                 (if join_type j = ''INNER'' then
                    inner_join (tab_name base_table) (tab_name join_t) left_col_name right_col_name left_rows join_rows
                  else if join_type j = ''LEFT'' then
                    left_join (tab_name base_table) join_t left_col_name right_col_name left_rows join_rows
                  else [])
           in join_loop db base_table base_rows js (if joined_rows \<noteq> [] then joined_rows else result_rows)))"

definition apply_joins :: "Database \<Rightarrow> Table \<Rightarrow> Row list \<Rightarrow> join list \<Rightarrow> exn + Row list" where
  "apply_joins db base_table base_rows js =
     and_then (join_loop db base_table base_rows js []) (\<lambda>result_rows.
       Inr (if result_rows \<noteq> [] then result_rows else base_rows))"

text \<open>\<open>_evaluate_condition\<close>: both sides of AND and OR are evaluated.\<close>

fun evaluate_condition :: "Row \<Rightarrow> condition \<Rightarrow> exn + bool" where
  "evaluate_condition r (Logical opr left right) =
     and_then (evaluate_condition r left) (\<lambda>left_result.
     and_then (evaluate_condition r right) (\<lambda>right_result.
       Inr (if opr = ''AND'' then left_result \<and> right_result else left_result \<or> right_result)))"
| "evaluate_condition r (Comparison column opr compare_value) =
     (let col_value = row_get r column in
      if opr = ''='' then Inr (py_eq col_value compare_value)
      else if opr = ''!='' \<or> opr = ''<>'' then Inr (\<not> py_eq col_value compare_value)
      else if opr = ''<'' then (if col_value \<noteq> VNull then py_lt col_value compare_value else Inr False)
      else if opr = ''>'' then (if col_value \<noteq> VNull then py_gt col_value compare_value else Inr False)
      else if opr = ''<='' then (if col_value \<noteq> VNull then py_le col_value compare_value else Inr False)
      else if opr = ''>='' then (if col_value \<noteq> VNull then py_ge col_value compare_value else Inr False)
      else Inl (ValueError (''Unknown operator: '' @ opr)))"

fun filter_exn :: "('a \<Rightarrow> exn + bool) \<Rightarrow> 'a list \<Rightarrow> exn + 'a list" where
  "filter_exn p [] = Inr []"
| "filter_exn p (x # xs) =
     and_then (p x) (\<lambda>keep. and_then (filter_exn p xs) (\<lambda>ys. Inr (if keep then x # ys else ys)))"

text \<open>
  \<open>sorted(rows, key=..., reverse=...)\<close>: a stable sort by \<open><\<close> on the keys, NULL keys
  replaced by the empty string. It raises TypeError when two keys cannot be compared (the
  message here names the first such pair in the list's order). With \<open>reverse\<close> the list is
  reversed, sorted and reversed again.
\<close>

fun insort_key :: "value \<times> Row \<Rightarrow> (value \<times> Row) list \<Rightarrow> (value \<times> Row) list" where
  "insort_key x [] = [x]"
| "insort_key x (y # ys) = (if py_compare (fst x) (fst y) = Some LT then x # y # ys else y # insort_key x ys)"

fun first_unordered :: "value list \<Rightarrow> exn option" where
  "first_unordered [] = None"
| "first_unordered (k # ks) =
     (case filter (\<lambda>k'. py_compare k' k = None) ks of
        k' # rest \<Rightarrow> Some (not_supported ''<'' k' k)
      | [] \<Rightarrow> first_unordered ks)"

definition sort_key :: "string \<Rightarrow> Row \<Rightarrow> value" where
  "sort_key column r = (if row_get r column \<noteq> VNull then row_get r column else VText [])"

definition sorted_rows :: "string \<Rightarrow> bool \<Rightarrow> Row list \<Rightarrow> exn + Row list" where
  "sorted_rows column reverse rs =
     (case first_unordered (map (sort_key column) rs) of
        Some e \<Rightarrow> Inl e
      | None \<Rightarrow>
          (let keyed = map (\<lambda>r. (sort_key column r, r)) (if reverse then rev rs else rs);
               result = map snd (fold insort_key keyed [])
           in Inr (if reverse then rev result else result)))"

text \<open>\<open>if parsed["limit"]: rows = rows[:parsed["limit"]]\<close>\<close>

definition apply_limit :: "int option \<Rightarrow> 'a list \<Rightarrow> 'a list" where
  "apply_limit n_opt rs = (case n_opt of None \<Rightarrow> rs | Some n \<Rightarrow> if n \<noteq> 0 then py_take n rs else rs)"

definition project :: "string list \<Rightarrow> Row \<Rightarrow> value dict" where
  "project cols r =
     fold (\<lambda>col result_row.
       if has_dot col then
         AList.update (after_dot col)
           (if map_of (row_data r) col \<noteq> None then row_get r col else row_get r (after_dot col)) result_row
       else AList.update col (row_get r col) result_row) cols []"

definition execute_select :: "Database \<Rightarrow> select_query \<Rightarrow> exn + QueryResult" where
  "execute_select db parsed =
     (case get_table db (sel_table parsed) of
        None \<Rightarrow> Inl (does_not_exist (sel_table parsed))
      | Some t \<Rightarrow>
          and_then (if sel_joins parsed \<noteq> [] then apply_joins db t (scan t) (sel_joins parsed)
                    else Inr (scan t)) (\<lambda>joined.
          and_then (case sel_where parsed of
                      Some cond \<Rightarrow> filter_exn (\<lambda>r. evaluate_condition r cond) joined
                    | None \<Rightarrow> Inr joined) (\<lambda>filtered.
          and_then (case sel_order_by parsed of
                      Some (column, direction) \<Rightarrow> sorted_rows column (direction = ''DESC'') filtered
                    | None \<Rightarrow> Inr filtered) (\<lambda>ordered.
            (let limited = apply_limit (sel_limit parsed) ordered;
                 cols = (if sel_columns parsed = [''*''] then
                           (if sel_joins parsed \<noteq> [] then
                              (case limited of r # rest \<Rightarrow> map fst (row_data r) | [] \<Rightarrow> [])
                            else column_order t)
                         else sel_columns parsed)
             in Inr \<lparr>res_columns = map after_dot cols, res_rows = map (project cols) limited,
                     res_message = None\<rparr>)))))"

section \<open>Column.validate on NULL\<close>

text \<open>
  C4. \<open>Column.validate\<close> applied to NULL accepts it for a primary-key column even when the
  column is declared NOT NULL, and returns the cannot-be-NULL error exactly when the column
  is neither nullable nor a primary key; in every other case NULL is accepted.
\<close>

theorem validate_null_primary_key_exempt:
  "(primary_key c \<longrightarrow> validate L c VNull = Inr (True, None))
   \<and> ((validate L c VNull = Inr (False, Some (cannot_be_null c))) = (\<not> nullable c \<and> \<not> primary_key c))
   \<and> (\<not> (\<not> nullable c \<and> \<not> primary_key c) \<longrightarrow> validate L c VNull = Inr (True, None))"
  by (simp add: validate_def)

text \<open>
  The runtime's conversions at the arguments of the examples below: \<open>int\<close> of an int,
  \<open>float\<close> of a float, \<open>str\<close> of a string. The examples call them nowhere else.
\<close>

definition example_lib :: pylib where
  "example_lib = \<lparr>
     py_int = (\<lambda>v. case v of VInt i \<Rightarrow> Inr (VInt i) | _ \<Rightarrow> Inl (ValueError [])),
     py_float = (\<lambda>v. case v of VFloat r \<Rightarrow> Inr (VFloat r) | _ \<Rightarrow> Inl (ValueError [])),
     py_str = (\<lambda>v. case v of VText s \<Rightarrow> s | _ \<Rightarrow> []),
     strptime = (\<lambda>s fmt. Inl (ValueError [])) \<rparr>"

theorem validate_null_primary_key_exempt_witness:
  "primary_key \<lparr>col_name = ''id'', data_type = T_INT, col_length = None, nullable = False,
      primary_key = True, unique = False, col_default = VNull\<rparr>
   \<and> validate example_lib \<lparr>col_name = ''id'', data_type = T_INT, col_length = None, nullable = False,
      primary_key = True, unique = False, col_default = VNull\<rparr> VNull = Inr (True, None)"
  using validate_null_primary_key_exempt [of "\<lparr>col_name = ''id'', data_type = T_INT, col_length = None,
      nullable = False, primary_key = True, unique = False, col_default = VNull\<rparr>" example_lib]
  by simp

section \<open>Unterminated string literals\<close>

text \<open>
  C10. When the tokenizer's loop reaches an opening quote (after optional whitespace) and
  the rest of the input holds no matching closing quote, tokenizing the query raises no
  error: the result is the tokens read so far followed by a STRING token whose text is
  everything after the opening quote up to the end of the input.
\<close>

theorem unterminated_string_is_a_token:
  assumes at: "loop_reaches query q tokens"
    and first: "skip_whitespace q = quote # rest"
    and quote: "quote = squote \<or> quote = dquote"
    and unclosed: "unterminated quote rest"
  shows "tokenize query = Inr (tokens @ [Token ''STRING'' rest])"
proof -
  have no_comment: "quote \<noteq> CHR ''-''"
    using quote by (auto simp: squote_def dquote_def)
  have "read_string (quote # rest) = (Token ''STRING'' rest, [])"
    using unterminated_text [OF unclosed] by simp
  with first quote no_comment
  have step: "tokenize_step q tokens = Next [] (tokens @ [Token ''STRING'' rest])"
    by (auto simp: tokenize_step_def)
  have last: "tokenize_step [] (tokens @ [Token ''STRING'' rest]) = Done"
    by (simp add: tokenize_step_def skip_whitespace_def)
  have "tokenize_loop q tokens = tokenize_loop [] (tokens @ [Token ''STRING'' rest])"
    using step by (subst tokenize_loop.simps) simp
  also have "\<dots> = Inr (tokens @ [Token ''STRING'' rest])"
    using last by (subst tokenize_loop.simps) simp
  finally show ?thesis using loop_reaches_result [OF at] by simp
qed

lemma ex_step: "tokenize_step (''SELECT '' @ [CHR 0x27] @ ''abc'') [] = Next ('' '' @ [CHR 0x27] @ ''abc'') [Token ''KEYWORD'' ''SELECT'']"
  by code_simp

theorem unterminated_string_is_a_token_witness:
  "loop_reaches (''SELECT '' @ [CHR 0x27] @ ''abc'') ('' '' @ [CHR 0x27] @ ''abc'') [Token ''KEYWORD'' ''SELECT'']
   \<and> skip_whitespace ('' '' @ [CHR 0x27] @ ''abc'') = CHR 0x27 # ''abc''
   \<and> unterminated (CHR 0x27) ''abc''
   \<and> tokenize (''SELECT '' @ [CHR 0x27] @ ''abc'') = Inr [Token ''KEYWORD'' ''SELECT'', Token ''STRING'' ''abc'']"
proof -
  have r: "loop_reaches (''SELECT '' @ [CHR 0x27] @ ''abc'') ('' '' @ [CHR 0x27] @ ''abc'') [Token ''KEYWORD'' ''SELECT'']"
    by (rule round [OF start ex_step])
  have s: "skip_whitespace ('' '' @ [CHR 0x27] @ ''abc'') = CHR 0x27 # ''abc''"
    by code_simp
  have q: "CHR 0x27 = squote \<or> CHR 0x27 = dquote" by (simp add: squote_def)
  have u: "unterminated (CHR 0x27) ''abc''" by code_simp
  show ?thesis using unterminated_string_is_a_token [OF r s q u] r s u by simp
qed

section \<open>The size field of the B-tree index\<close>

lemma btree_insert_size: "btree_insert idx key row_index = Inr idx' \<Longrightarrow> bt_size idx' = bt_size idx + 1"
  by (auto simp: btree_insert_def and_then_def split: sum.splits if_splits)

lemma btree_delete_size: "bt_size (btree_delete idx key row_index) = bt_size idx - 1"
  by (simp add: btree_delete_def)

lemma run_ops_size:
  "run_ops idx ops = Inr idx' \<Longrightarrow>
   bt_size idx' = bt_size idx + int (length (filter is_Insert ops))
     - int (length (filter (\<lambda>x. \<not> is_Insert x) ops))"
proof (induction idx ops rule: run_ops.induct)
  case (1 idx)
  then show ?case by simp
next
  case (2 idx key row_index ops)
  from "2.prems" obtain mid where m: "btree_insert idx key row_index = Inr mid" and r: "run_ops mid ops = Inr idx'"
    by (auto simp: and_then_def split: sum.splits)
  from "2.IH" [OF m r] btree_insert_size [OF m] show ?case by simp
next
  case (3 idx key row_index ops)
  from "3.IH" "3.prems" btree_delete_size [of idx key row_index] show ?case by simp
qed

text \<open>
  C9. After a sequence of insert and delete calls on a fresh index, all of which returned,
  \<open>size\<close> is the number of insert calls minus the number of delete calls. A delete
  lowers \<open>size\<close> by one whatever the tree holds: on an empty index it leaves no entry
  and the size \<open>-1\<close>, so \<open>size\<close> is not the number of stored entries and can be negative.
\<close>

theorem size_counts_calls_not_entries:
  "(\<forall>idx'. run_ops (BTreeIndex_init column t) ops = Inr idx' \<longrightarrow>
      bt_size idx' = int (length (filter is_Insert ops)) - int (length (filter (\<lambda>x. \<not> is_Insert x) ops)))
   \<and> bt_size (btree_delete idx key row_index) = bt_size idx - 1
   \<and> collect_entries (bt_root (btree_delete (BTreeIndex_init column t) key row_index)) = []
   \<and> bt_size (btree_delete (BTreeIndex_init column t) key row_index) = - 1"
proof -
  have "\<forall>idx'. run_ops (BTreeIndex_init column t) ops = Inr idx' \<longrightarrow>
      bt_size idx' = int (length (filter is_Insert ops)) - int (length (filter (\<lambda>x. \<not> is_Insert x) ops))"
    using run_ops_size [of "BTreeIndex_init column t" ops] by (simp add: BTreeIndex_init_def)
  moreover have "collect_entries (bt_root (btree_delete (BTreeIndex_init column t) key row_index)) = []"
    by (simp add: btree_delete_def BTreeIndex_init_def)
  ultimately show ?thesis by (simp add: btree_delete_def BTreeIndex_init_def)
qed

lemma size_example:
  "run_ops (BTreeIndex_init ''n'' 3) [Insert (VInt 1) 0, Delete (VInt 2) 7, Delete (VInt 2) 7]
   = Inr \<lparr>bt_column_name = ''n'', bt_order = 3, bt_root = BTreeNode True [(VInt 1, 0)] [], bt_size = - 1\<rparr>"
  by code_simp

theorem size_counts_calls_not_entries_witness:
  "run_ops (BTreeIndex_init ''n'' 3) [Insert (VInt 1) 0, Delete (VInt 2) 7, Delete (VInt 2) 7]
     = Inr \<lparr>bt_column_name = ''n'', bt_order = 3, bt_root = BTreeNode True [(VInt 1, 0)] [], bt_size = - 1\<rparr>
   \<and> bt_size \<lparr>bt_column_name = ''n'', bt_order = 3, bt_root = BTreeNode True [(VInt 1, 0)] [], bt_size = - 1\<rparr>
     = int (length (filter is_Insert [Insert (VInt 1) 0, Delete (VInt 2) 7, Delete (VInt 2) 7]))
       - int (length (filter (\<lambda>x. \<not> is_Insert x) [Insert (VInt 1) 0, Delete (VInt 2) 7, Delete (VInt 2) 7]))
   \<and> length (collect_entries (BTreeNode True [(VInt 1, 0)] [])) = 1"
  using size_counts_calls_not_entries [of "''n''" 3 "[Insert (VInt 1) 0, Delete (VInt 2) 7, Delete (VInt 2) 7]"]
    size_example
  by simp

section \<open>Table.insert fails before it changes the table\<close>

lemma table_insert_raised: "table_insert L t d = Raised e t' \<Longrightarrow> t' = t"
  by (auto simp: table_insert_def Let_def split: sum.splits prod.splits bool.splits)

lemma table_insert_returned:
  assumes "table_insert L t d = Returned r t'"
  shows "row_id r = next_row_id t \<and> next_row_id t' = next_row_id t + 1
    \<and> rows t' = rows t @ [Some r]"
  using assms
  by (auto simp: table_insert_def Let_def split: sum.splits prod.splits bool.splits)

lemma fill_defaults_fails:
  assumes "(cname, col) \<in> set cols" and "map_of d cname = Some v" and "convert L col v = Inl e"
  shows "\<exists>e'. fill_defaults L cols d acc = Inl e'"
  using assms
proof (induction cols arbitrary: acc)
  case Nil
  then show ?case by simp
next
  case (Cons c cols)
  obtain cn co where c: "c = (cn, co)" by (cases c)
  show ?case
  proof (cases "c = (cname, col)")
    case True
    with c Cons.prems show ?thesis by simp
  next
    case False
    with Cons.prems have "(cname, col) \<in> set cols" by simp
    from Cons.IH [OF this Cons.prems(2,3)] c show ?thesis
      by (auto simp: and_then_def split: option.splits sum.splits)
  qed
qed

lemma validate_columns_fails:
  assumes "(cname, col) \<in> set cols" and "column_rejects L t fd cname col"
  shows "validate_columns L t fd cols \<noteq> Inr (True, x)"
  using assms
proof (induction cols)
  case Nil
  then show ?case by simp
next
  case (Cons c cols)
  obtain cn co where c: "c = (cn, co)" by (cases c)
  show ?case
  proof (cases "c = (cname, col)")
    case True
    with c Cons.prems(2) show ?thesis
      by (auto simp: column_rejects_def Let_def and_then_def
          split: sum.splits prod.splits bool.splits list.splits if_splits)
  next
    case False
    with Cons.prems have "(cname, col) \<in> set cols" by simp
    from Cons.IH [OF this Cons.prems(2)] c show ?thesis
      by (auto simp: Let_def and_then_def split: sum.splits prod.splits if_splits)
  qed
qed

lemma validate_row_fails:
  assumes "(cname, col) \<in> set (columns t)" and "column_rejects L t fd cname col"
  shows "validate_row L t fd \<noteq> Inr (True, x)"
  using validate_columns_fails [OF assms] by (simp add: validate_row_def split: option.splits)

lemma not_validated_raises:
  assumes "fill_defaults L (columns t) d [] = Inr fd" and "\<And>x. validate_row L t fd \<noteq> Inr (True, x)"
  shows "\<exists>e. table_insert L t d = Raised e t"
  using assms by (auto simp: table_insert_def split: sum.splits prod.splits bool.splits)

text \<open>
  C6. When \<open>Table.insert\<close> raises before it stores the row, the table it leaves is the
  table it was given: rows, indexes, \<open>next_row_id\<close> and the row count are unchanged.
  It raises in that way when a given value fails its conversion, and when a column rejects
  the built row (NOT NULL, VARCHAR length, or a primary-key or unique value that
  \<open>find_by_column\<close> finds in the table).
\<close>

theorem failed_insert_leaves_table:
  "(table_insert L t d = Raised e t' \<longrightarrow>
      t' = t \<and> rows t' = rows t \<and> indexes t' = indexes t \<and> next_row_id t' = next_row_id t
      \<and> length (scan t') = length (scan t))
   \<and> ((cname, col) \<in> set (columns t) \<and> map_of d cname = Some v \<and> convert L col v = Inl e
        \<longrightarrow> (\<exists>e'. table_insert L t d = Raised e' t))
   \<and> (fill_defaults L (columns t) d [] = Inr full_data \<and> (cname, col) \<in> set (columns t)
        \<and> column_rejects L t full_data cname col
        \<longrightarrow> (\<exists>e'. table_insert L t d = Raised e' t))"
proof -
  have a: "table_insert L t d = Raised e t' \<longrightarrow> t' = t"
    by (auto dest: table_insert_raised)
  have b: "(cname, col) \<in> set (columns t) \<and> map_of d cname = Some v \<and> convert L col v = Inl e
        \<longrightarrow> (\<exists>e'. table_insert L t d = Raised e' t)"
  proof
    assume h: "(cname, col) \<in> set (columns t) \<and> map_of d cname = Some v \<and> convert L col v = Inl e"
    then obtain e' where "fill_defaults L (columns t) d [] = Inl e'"
      using fill_defaults_fails [of cname col "columns t" d v L e "[]"] by blast
    then show "\<exists>e'. table_insert L t d = Raised e' t" by (simp add: table_insert_def)
  qed
  have c: "fill_defaults L (columns t) d [] = Inr full_data \<and> (cname, col) \<in> set (columns t)
        \<and> column_rejects L t full_data cname col
        \<longrightarrow> (\<exists>e'. table_insert L t d = Raised e' t)"
    using not_validated_raises [of L t d full_data] validate_row_fails [of cname col t L full_data]
    by blast
  from a b c show ?thesis by blast
qed

text \<open>
  The table of \<open>CREATE TABLE t (id INT PRIMARY KEY, v VARCHAR(5))\<close>, empty and after
  \<open>INSERT INTO t VALUES (1, 'ab')\<close>.
\<close>

definition id_column :: column where
  "id_column = \<lparr>col_name = ''id'', data_type = T_INT, col_length = None, nullable = True,
     primary_key = True, unique = False, col_default = VNull\<rparr>"

definition v_column :: column where
  "v_column = \<lparr>col_name = ''v'', data_type = T_VARCHAR, col_length = Some 5, nullable = True,
     primary_key = False, unique = False, col_default = VNull\<rparr>"

definition t0 :: Table where
  "t0 = \<lparr>tab_name = ''t'', columns = [(''id'', id_column), (''v'', v_column)],
     column_order = [''id'', ''v''], rows = [],
     indexes = [(''id'', \<lparr>bt_column_name = ''id'', bt_order = 3, bt_root = BTreeNode True [] [], bt_size = 0\<rparr>)],
     next_row_id = 0\<rparr>"

definition t1 :: Table where
  "t1 = \<lparr>tab_name = ''t'', columns = [(''id'', id_column), (''v'', v_column)],
     column_order = [''id'', ''v''],
     rows = [Some \<lparr>row_data = [(''id'', VInt 1), (''v'', VText ''ab'')], row_id = 0\<rparr>],
     indexes = [(''id'', \<lparr>bt_column_name = ''id'', bt_order = 3,
                bt_root = BTreeNode True [(VInt 1, 0)] [], bt_size = 1\<rparr>)],
     next_row_id = 1\<rparr>"

lemma t0_created: "Table_init ''t'' [id_column, v_column] = Inr t0"
  by code_simp

lemma t1_inserted:
  "table_insert example_lib t0 [(''id'', VInt 1), (''v'', VText ''ab'')]
   = Returned \<lparr>row_data = [(''id'', VInt 1), (''v'', VText ''ab'')], row_id = 0\<rparr> t1"
  by code_simp

theorem failed_insert_leaves_table_witness:
  "fill_defaults example_lib (columns t1) [(''id'', VInt 1), (''v'', VText ''cd'')] []
     = Inr [(''id'', VInt 1), (''v'', VText ''cd'')]
   \<and> (''id'', id_column) \<in> set (columns t1)
   \<and> column_rejects example_lib t1 [(''id'', VInt 1), (''v'', VText ''cd'')] ''id'' id_column
   \<and> (\<exists>e'. table_insert example_lib t1 [(''id'', VInt 1), (''v'', VText ''cd'')] = Raised e' t1)
   \<and> length (scan t1) = 1"
proof -
  have f: "fill_defaults example_lib (columns t1) [(''id'', VInt 1), (''v'', VText ''cd'')] []
     = Inr [(''id'', VInt 1), (''v'', VText ''cd'')]"
    by code_simp
  have m: "(''id'', id_column) \<in> set (columns t1)"
    by (simp add: t1_def)
  have r: "column_rejects example_lib t1 [(''id'', VInt 1), (''v'', VText ''cd'')] ''id'' id_column"
    by code_simp
  have s: "length (scan t1) = 1"
    by code_simp
  from failed_insert_leaves_table [of example_lib t1 "[(''id'', VInt 1), (''v'', VText ''cd'')]" _ _
      "''id''" id_column _ "[(''id'', VInt 1), (''v'', VText ''cd'')]"] f m r
  have "\<exists>e'. table_insert example_lib t1 [(''id'', VInt 1), (''v'', VText ''cd'')] = Raised e' t1"
    by blast
  with f m r s show ?thesis by blast
qed

section \<open>Deleting a row\<close>

lemma table_delete_returned:
  assumes "table_delete t i = Returned u t'"
  shows "rows t' = (rows t)[i := None]" and "next_row_id t' = next_row_id t" and "i < length (rows t)"
  using assms by (auto simp: table_delete_def split: if_splits option.splits)

lemma table_delete_raised: "table_delete t i = Raised e t' \<Longrightarrow> t' = t"
  by (auto simp: table_delete_def split: if_splits option.splits)

lemma table_delete_not_aborted: "table_delete t i \<noteq> Aborted e"
  by (auto simp: table_delete_def split: if_splits option.splits)

lemma live_rows_append: "[r. Some r \<leftarrow> xs @ ys] = [r. Some r \<leftarrow> xs] @ [r. Some r \<leftarrow> ys]"
  by simp

lemma scan_after_delete:
  assumes "i < length xs"
  shows "[r. Some r \<leftarrow> xs[i := None]] = [r. Some r \<leftarrow> take i xs] @ [r. Some r \<leftarrow> drop (Suc i) xs]"
proof -
  have "xs[i := None] = take i xs @ None # drop (Suc i) xs"
    using assms by (rule upd_conv_take_nth_drop)
  then show ?thesis by simp
qed

lemma run_table_ids:
  "run_table L t ops = Some (ids, t') \<Longrightarrow>
   sorted_wrt (<) ids \<and> (\<forall>x \<in> set ids. next_row_id t \<le> x) \<and> next_row_id t \<le> next_row_id t'"
proof (induction ops arbitrary: t ids)
  case Nil
  then show ?case by simp
next
  case (Cons op ops)
  show ?case
  proof (cases op)
    case (InsertRow d)
    show ?thesis
    proof (cases "table_insert L t d")
      case (Returned r t1)
      with Cons.prems InsertRow obtain ids1 where
        run: "run_table L t1 ops = Some (ids1, t')" and ids: "ids = row_id r # ids1"
        by auto
      from table_insert_returned [OF Returned]
      have r: "row_id r = next_row_id t" and n: "next_row_id t1 = next_row_id t + 1" by simp_all
      from Cons.IH [OF run] r n ids show ?thesis by fastforce
    next
      case (Raised e t1)
      with table_insert_raised have "t1 = t" by blast
      with Cons.prems InsertRow Raised Cons.IH [of t ids] show ?thesis by simp
    next
      case (Aborted e)
      with Cons.prems InsertRow show ?thesis by simp
    qed
  next
    case (DeleteRow i)
    show ?thesis
    proof (cases "table_delete t i")
      case (Returned u t1)
      with Cons.prems DeleteRow have run: "run_table L t1 ops = Some (ids, t')" by simp
      from table_delete_returned(2) [OF Returned] Cons.IH [OF run] show ?thesis by simp
    next
      case (Raised e t1)
      with table_delete_raised have "t1 = t" by blast
      with Cons.prems DeleteRow Raised Cons.IH [of t ids] show ?thesis by simp
    next
      case (Aborted e)
      with table_delete_not_aborted show ?thesis by blast
    qed
  qed
qed

text \<open>
  C7. A delete that returns puts \<open>None\<close> in its slot and moves no other slot; the scan is
  then the scan of the other slots, in order; \<open>next_row_id\<close> is unchanged. The ids that
  later inserts assign are strictly increasing and not below the counter, so none of them
  is the id of the deleted row (nor of any row whose id is below the counter).
\<close>

theorem delete_keeps_slots_and_ids:
  assumes "table_delete t slot = Returned u t'"
  shows "rows t' = (rows t)[slot := None]
    \<and> scan t' = [r. Some r \<leftarrow> take slot (rows t)] @ [r. Some r \<leftarrow> drop (Suc slot) (rows t)]
    \<and> next_row_id t' = next_row_id t
    \<and> (run_table L t' ops = Some (ids, t'') \<longrightarrow>
           sorted_wrt (<) ids \<and> (\<forall>x \<in> set ids. next_row_id t \<le> x))
    \<and> (ids_below t \<and> rows t ! slot = Some r \<and> run_table L t' ops = Some (ids, t'') \<longrightarrow>
           row_id r \<notin> set ids)"
proof -
  note d = table_delete_returned [OF assms]
  have sc: "scan t' = [r. Some r \<leftarrow> take slot (rows t)] @ [r. Some r \<leftarrow> drop (Suc slot) (rows t)]"
    unfolding scan_def d(1) using d(3) by (rule scan_after_delete)
  have later: "run_table L t' ops = Some (ids, t'') \<longrightarrow>
           sorted_wrt (<) ids \<and> (\<forall>x \<in> set ids. next_row_id t \<le> x)"
    using run_table_ids [of L t' ops ids t''] d(2) by simp
  have fresh: "ids_below t \<and> rows t ! slot = Some r \<and> run_table L t' ops = Some (ids, t'') \<longrightarrow>
           row_id r \<notin> set ids"
  proof
    assume h: "ids_below t \<and> rows t ! slot = Some r \<and> run_table L t' ops = Some (ids, t'')"
    then have "Some r \<in> set (rows t)" using d(3) nth_mem [of slot "rows t"] by simp
    then have "r \<in> set (scan t)" by (auto simp: scan_def)
    with h have "row_id r < next_row_id t" by (auto simp: ids_below_def list_all_iff)
    with later h show "row_id r \<notin> set ids" by fastforce
  qed
  from d(1) sc d(2) later fresh show ?thesis by blast
qed

lemma ids_below_insert:
  assumes "ids_below t" and "table_insert L t d = Returned r t'"
  shows "ids_below t'"
  using assms(1) table_insert_returned [OF assms(2)]
  by (auto simp: ids_below_def scan_def list_all_iff)

lemma ids_below_delete:
  assumes "ids_below t" and "table_delete t i = Returned u t'"
  shows "ids_below t'"
proof -
  have "set ((rows t)[i := None]) \<subseteq> insert None (set (rows t))"
    by (rule set_update_subset_insert)
  with assms(1) table_delete_returned(1,2) [OF assms(2)] show ?thesis
    by (auto simp: ids_below_def scan_def list_all_iff)
qed

lemma ids_below_run:
  "ids_below t \<Longrightarrow> run_table L t ops = Some (ids, t') \<Longrightarrow> ids_below t'"
proof (induction ops arbitrary: t ids)
  case Nil
  then show ?case by simp
next
  case (Cons op ops)
  show ?case
  proof (cases op)
    case (InsertRow d)
    show ?thesis
    proof (cases "table_insert L t d")
      case (Returned r t1)
      with Cons.prems(2) InsertRow obtain ids1 where run: "run_table L t1 ops = Some (ids1, t')"
        by auto
      from ids_below_insert [OF Cons.prems(1) Returned] Cons.IH run show ?thesis by blast
    next
      case (Raised e t1)
      with table_insert_raised have "t1 = t" by blast
      with Cons.prems InsertRow Raised Cons.IH [of t ids] show ?thesis by simp
    next
      case (Aborted e)
      with Cons.prems InsertRow show ?thesis by simp
    qed
  next
    case (DeleteRow i)
    show ?thesis
    proof (cases "table_delete t i")
      case (Returned u t1)
      with Cons.prems(2) DeleteRow have run: "run_table L t1 ops = Some (ids, t')" by simp
      from ids_below_delete [OF Cons.prems(1) Returned] Cons.IH run show ?thesis by blast
    next
      case (Raised e t1)
      with table_delete_raised have "t1 = t" by blast
      with Cons.prems DeleteRow Raised Cons.IH [of t ids] show ?thesis by simp
    next
      case (Aborted e)
      with table_delete_not_aborted show ?thesis by blast
    qed
  qed
qed

lemma create_index_rows:
  "create_index t c = Inr t' \<Longrightarrow> rows t' = rows t \<and> next_row_id t' = next_row_id t"
  by (auto simp: create_index_def and_then_def split: if_splits sum.splits)

lemma create_key_indexes_rows:
  "create_key_indexes t cols = Inr t' \<Longrightarrow> rows t' = rows t \<and> next_row_id t' = next_row_id t"
proof (induction cols arbitrary: t)
  case Nil
  then show ?case by simp
next
  case (Cons col cols)
  from Cons.prems obtain t1 where
    a: "(if primary_key col \<or> unique col then create_index t (col_name col) else Inr t) = Inr t1"
    and b: "create_key_indexes t1 cols = Inr t'"
    by (auto simp: and_then_def split: sum.splits)
  from a create_index_rows [of t "col_name col" t1]
  have "rows t1 = rows t \<and> next_row_id t1 = next_row_id t" by (auto split: if_splits)
  with Cons.IH [OF b] show ?case by simp
qed

lemma ids_below_init: "Table_init name cols = Inr t \<Longrightarrow> ids_below t"
  using create_key_indexes_rows [of _ cols t]
  by (auto simp: Table_init_def ids_below_def scan_def)

definition row_ab :: Row where
  "row_ab = \<lparr>row_data = [(''id'', VInt 1), (''v'', VText ''ab'')], row_id = 0\<rparr>"

definition t2 :: Table where
  "t2 = \<lparr>tab_name = ''t'', columns = [(''id'', id_column), (''v'', v_column)],
     column_order = [''id'', ''v''], rows = [None],
     indexes = [(''id'', \<lparr>bt_column_name = ''id'', bt_order = 3,
                bt_root = BTreeNode True [] [], bt_size = 0\<rparr>)],
     next_row_id = 1\<rparr>"

definition t3 :: Table where
  "t3 = \<lparr>tab_name = ''t'', columns = [(''id'', id_column), (''v'', v_column)],
     column_order = [''id'', ''v''],
     rows = [None, Some \<lparr>row_data = [(''id'', VInt 1), (''v'', VText ''cd'')], row_id = 1\<rparr>],
     indexes = [(''id'', \<lparr>bt_column_name = ''id'', bt_order = 3,
                bt_root = BTreeNode True [(VInt 1, 1)] [], bt_size = 1\<rparr>)],
     next_row_id = 2\<rparr>"

theorem delete_keeps_slots_and_ids_witness:
  "table_delete t1 0 = Returned () t2
   \<and> ids_below t1 \<and> rows t1 ! 0 = Some row_ab
   \<and> run_table example_lib t2 [InsertRow [(''id'', VInt 1), (''v'', VText ''cd'')]] = Some ([1], t3)
   \<and> scan t2 = [] \<and> next_row_id t2 = next_row_id t1
   \<and> row_id row_ab \<notin> set [1]"
proof -
  have d: "table_delete t1 0 = Returned () t2" by code_simp
  have i: "ids_below t1" by code_simp
  have r: "rows t1 ! 0 = Some row_ab" by code_simp
  have run: "run_table example_lib t2 [InsertRow [(''id'', VInt 1), (''v'', VText ''cd'')]] = Some ([1], t3)"
    by code_simp
  have e: "[r. Some r \<leftarrow> take 0 (rows t1)] @ [r. Some r \<leftarrow> drop (Suc 0) (rows t1)] = []"
    by (simp add: t1_def)
  from delete_keeps_slots_and_ids [OF d, of example_lib "[InsertRow [(''id'', VInt 1), (''v'', VText ''cd'')]]"
      "[1]" t3 row_ab] i r run e
  have "scan t2 = [] \<and> next_row_id t2 = next_row_id t1 \<and> row_id row_ab \<notin> set [1]"
    by metis
  with d i r run show ?thesis by blast
qed

section \<open>find_by_column without an index, after a delete\<close>

definition row_cd :: Row where
  "row_cd = \<lparr>row_data = [(''id'', VInt 1), (''v'', VText ''cd'')], row_id = 1\<rparr>"

lemma t3_reached:
  "run_table example_lib t0 [InsertRow [(''id'', VInt 1), (''v'', VText ''ab'')], DeleteRow 0,
     InsertRow [(''id'', VInt 1), (''v'', VText ''cd'')]] = Some ([0, 1], t3)"
  by code_simp

text \<open>
  C8. After \<open>INSERT (1, 'ab')\<close>, the delete of slot 0 and \<open>INSERT (1, 'cd')\<close>, column
  \<open>v\<close> has no index and the one live row holds \<open>'cd'\<close> there; \<open>find_by_column\<close> on
  \<open>v\<close> and \<open>'cd'\<close> raises TypeError at the tombstone instead of returning that row.
\<close>

theorem find_by_column_raises_at_tombstone:
  "map_of (indexes t3) ''v'' = None
   \<and> scan t3 = [row_cd]
   \<and> row_get row_cd ''v'' = VText ''cd''
   \<and> find_by_column t3 ''v'' (VText ''cd'') = Inl not_subscriptable"
  by code_simp

lemma scan_equal_live:
  "None \<notin> set slots \<Longrightarrow>
   scan_equal slots c v = Inr (filter (\<lambda>slot. case slot of Some r \<Rightarrow> py_eq (row_get r c) v | None \<Rightarrow> False) slots)"
proof (induction slots)
  case Nil
  show ?case by simp
next
  case (Cons slot slots)
  then obtain r where "slot = Some r" by (cases slot) auto
  with Cons show ?case by simp
qed

section \<open>Range lookup through the index\<close>

definition t6 :: Table where
  "t6 = \<lparr>tab_name = ''t'', columns = [(''id'', id_column), (''v'', v_column)],
     column_order = [''id'', ''v''],
     rows = [Some \<lparr>row_data = [(''id'', VInt 1), (''v'', VNull)], row_id = 0\<rparr>,
             Some \<lparr>row_data = [(''id'', VInt 2), (''v'', VNull)], row_id = 1\<rparr>,
             Some \<lparr>row_data = [(''id'', VInt 3), (''v'', VNull)], row_id = 2\<rparr>,
             Some \<lparr>row_data = [(''id'', VInt 4), (''v'', VNull)], row_id = 3\<rparr>,
             Some \<lparr>row_data = [(''id'', VInt 5), (''v'', VNull)], row_id = 4\<rparr>,
             Some \<lparr>row_data = [(''id'', VInt 6), (''v'', VNull)], row_id = 5\<rparr>],
     indexes = [(''id'', \<lparr>bt_column_name = ''id'', bt_order = 3,
        bt_root = BTreeNode False [(VInt 4, 3)]
          [BTreeNode True [(VInt 1, 0), (VInt 2, 1)] [],
           BTreeNode True [(VInt 4, 3), (VInt 5, 4), (VInt 6, 5)] []],
        bt_size = 6\<rparr>)],
     next_row_id = 6\<rparr>"

lemma t6_reached:
  "run_table example_lib t0 [InsertRow [(''id'', VInt 1)], InsertRow [(''id'', VInt 2)],
     InsertRow [(''id'', VInt 3)], InsertRow [(''id'', VInt 4)], InsertRow [(''id'', VInt 5)],
     InsertRow [(''id'', VInt 6)]] = Some ([0, 1, 2, 3, 4, 5], t6)"
  by code_simp

text \<open>
  The split that made this tree dropped the entry of key 3: the index no longer finds the
  live row with \<open>id = 3\<close>, and a second row with that primary key is inserted.
\<close>

lemma lost_key_admits_duplicate:
  "find_by_column t6 ''id'' (VInt 3) = Inr []
   \<and> table_insert example_lib t6 [(''id'', VInt 3)]
       = Returned \<lparr>row_data = [(''id'', VInt 3), (''v'', VNull)], row_id = 6\<rparr>
           (t6\<lparr>rows := rows t6 @ [Some \<lparr>row_data = [(''id'', VInt 3), (''v'', VNull)], row_id = 6\<rparr>],
               indexes := [(''id'', \<lparr>bt_column_name = ''id'', bt_order = 3,
                  bt_root = BTreeNode False [(VInt 4, 3)]
                    [BTreeNode True [(VInt 1, 0), (VInt 2, 1), (VInt 3, 6)] [],
                     BTreeNode True [(VInt 4, 3), (VInt 5, 4), (VInt 6, 5)] []],
                  bt_size = 7\<rparr>)],
               next_row_id := 7\<rparr>)"
  by code_simp

text \<open>
  C2. In the table of six rows with the ids 1 to 6, inserted in that order, the range
  lookup of \<open>id\<close> between 1 and 2 through the primary-key index returns no row, while the
  full scan of the same rows returns the rows with the ids 1 and 2; the tree holds the
  entries of the keys 1 and 2, and \<open>range_search\<close> returns neither.
\<close>

theorem range_lookup_misses_rows:
  "find_by_range t6 ''id'' (VInt 1) (VInt 2) = Inr []
   \<and> scan_between (rows t6) ''id'' (VInt 1) (VInt 2)
       = Inr [Some \<lparr>row_data = [(''id'', VInt 1), (''v'', VNull)], row_id = 0\<rparr>,
              Some \<lparr>row_data = [(''id'', VInt 2), (''v'', VNull)], row_id = 1\<rparr>]
   \<and> map_of (indexes t6) ''id'' = Some \<lparr>bt_column_name = ''id'', bt_order = 3,
        bt_root = BTreeNode False [(VInt 4, 3)]
          [BTreeNode True [(VInt 1, 0), (VInt 2, 1)] [],
           BTreeNode True [(VInt 4, 3), (VInt 5, 4), (VInt 6, 5)] []],
        bt_size = 6\<rparr>
   \<and> collect_entries (BTreeNode False [(VInt 4, 3)]
          [BTreeNode True [(VInt 1, 0), (VInt 2, 1)] [],
           BTreeNode True [(VInt 4, 3), (VInt 5, 4), (VInt 6, 5)] []])
       = [(VInt 4, 3), (VInt 1, 0), (VInt 2, 1), (VInt 4, 3), (VInt 5, 4), (VInt 6, 5)]
   \<and> range_search_node (BTreeNode False [(VInt 4, 3)]
          [BTreeNode True [(VInt 1, 0), (VInt 2, 1)] [],
           BTreeNode True [(VInt 4, 3), (VInt 5, 4), (VInt 6, 5)] []]) (VInt 1) (VInt 2) = Inr []"
  by code_simp

section \<open>Save and load\<close>

definition at_column :: column where
  "at_column = \<lparr>col_name = ''at'', data_type = T_DATETIME, col_length = None, nullable = True,
     primary_key = False, unique = False, col_default = VNull\<rparr>"

definition ev1 :: Table where
  "ev1 = \<lparr>tab_name = ''ev'', columns = [(''id'', id_column), (''at'', at_column)],
     column_order = [''id'', ''at''],
     rows = [Some \<lparr>row_data = [(''id'', VInt 1), (''at'', VDatetime (DateTime 2024 1 2 3 4 5 0))], row_id = 0\<rparr>],
     indexes = [(''id'', \<lparr>bt_column_name = ''id'', bt_order = 3,
                bt_root = BTreeNode True [(VInt 1, 0)] [], bt_size = 1\<rparr>)],
     next_row_id = 1\<rparr>"

lemma ev1_reached:
  "and_then (Table_init ''ev'' [id_column, at_column]) (\<lambda>t. Inr (table_insert example_lib t
     [(''id'', VInt 1), (''at'', VDatetime (DateTime 2024 1 2 3 4 5 0))]))
   = Inr (Returned \<lparr>row_data = [(''id'', VInt 1), (''at'', VDatetime (DateTime 2024 1 2 3 4 5 0))], row_id = 0\<rparr> ev1)"
  by code_simp

text \<open>
  C3. A database whose table \<open>ev (id INT PRIMARY KEY, at DATETIME)\<close> holds one row with a
  datetime: after \<open>save\<close> and \<open>load\<close> into a fresh instance the row holds the text
  \<open>2024-01-02 03:04:05\<close> in place of the datetime, so the row data is not the same.
\<close>

theorem reload_turns_datetime_into_text:
  "rows ev1 = [Some \<lparr>row_data = [(''id'', VInt 1), (''at'', VDatetime (DateTime 2024 1 2 3 4 5 0))], row_id = 0\<rparr>]
   \<and> load (save ''2024-01-02T03:04:06'' \<lparr>db_name = ''default'', tables = [(''ev'', ev1)]\<rparr>)
         \<lparr>db_name = ''default'', tables = []\<rparr>
       = Inr \<lparr>db_name = ''default'', tables = [(''ev'', ev1\<lparr>rows :=
           [Some \<lparr>row_data = [(''id'', VInt 1), (''at'', VText ''2024-01-02 03:04:05'')], row_id = 0\<rparr>]\<rparr>)]\<rparr>"
  by code_simp

text \<open>
  The index of the keys 6, 5, 4, 3, 2, 1 (rows 0 to 5), written and read back: the entry
  of key 3 is in the index before and not after.
\<close>

lemma reload_drops_index_entry:
  "insert_all (BTreeIndex_init ''id'' 3)
     [(VInt 6, 0), (VInt 5, 1), (VInt 4, 2), (VInt 3, 3), (VInt 2, 4), (VInt 1, 5)]
   = Inr \<lparr>bt_column_name = ''id'', bt_order = 3,
        bt_root = BTreeNode False [(VInt 5, 1)]
          [BTreeNode True [(VInt 1, 5), (VInt 2, 4), (VInt 3, 3)] [],
           BTreeNode True [(VInt 5, 1), (VInt 6, 0)] []],
        bt_size = 6\<rparr>
   \<and> BTreeIndex_from_dict (json_roundtrip (BTreeIndex_to_dict \<lparr>bt_column_name = ''id'', bt_order = 3,
        bt_root = BTreeNode False [(VInt 5, 1)]
          [BTreeNode True [(VInt 1, 5), (VInt 2, 4), (VInt 3, 3)] [],
           BTreeNode True [(VInt 5, 1), (VInt 6, 0)] []],
        bt_size = 6\<rparr>))
   = Inr \<lparr>bt_column_name = ''id'', bt_order = 3,
        bt_root = BTreeNode False [(VInt 5, 1)]
          [BTreeNode True [(VInt 1, 5), (VInt 2, 4)] [],
           BTreeNode True [(VInt 5, 1), (VInt 5, 1), (VInt 6, 0)] []],
        bt_size = 6\<rparr>"
  by code_simp

section \<open>Example tables for the executor\<close>

definition customers :: Table where
  "customers = \<lparr>tab_name = ''customers'', columns = [(''id'', id_column)], column_order = [''id''],
     rows = [Some \<lparr>row_data = [(''id'', VInt 1)], row_id = 0\<rparr>],
     indexes = [(''id'', \<lparr>bt_column_name = ''id'', bt_order = 3,
                bt_root = BTreeNode True [(VInt 1, 0)] [], bt_size = 1\<rparr>)],
     next_row_id = 1\<rparr>"

definition customer_id_column :: column where
  "customer_id_column = \<lparr>col_name = ''customer_id'', data_type = T_INT, col_length = None, nullable = True,
     primary_key = False, unique = False, col_default = VNull\<rparr>"

definition orders :: Table where
  "orders = \<lparr>tab_name = ''orders'', columns = [(''customer_id'', customer_id_column)],
     column_order = [''customer_id''],
     rows = [Some \<lparr>row_data = [(''customer_id'', VInt 2)], row_id = 0\<rparr>],
     indexes = [], next_row_id = 1\<rparr>"

lemma customers_reached:
  "and_then (Table_init ''customers'' [id_column]) (\<lambda>t. Inr (table_insert example_lib t [(''id'', VInt 1)]))
   = Inr (Returned \<lparr>row_data = [(''id'', VInt 1)], row_id = 0\<rparr> customers)"
  by code_simp

lemma orders_reached:
  "and_then (Table_init ''orders'' [customer_id_column]) (\<lambda>t. Inr (table_insert example_lib t [(''customer_id'', VInt 2)]))
   = Inr (Returned \<lparr>row_data = [(''customer_id'', VInt 2)], row_id = 0\<rparr> orders)"
  by code_simp

section \<open>INNER JOIN\<close>

text \<open>
  A single INNER JOIN gives one merged row for each pair of a base row and a row of the
  joined table with equal join values, in the order of the nested loops, when there is such
  a pair; when there is none it gives the base rows back.
\<close>

lemma single_inner_join:
  assumes "get_table db (join_table j) = Some join_t" and "join_type j = ''INNER''"
  shows "apply_joins db base_table base_rows [j] =
     Inr (let pairs = inner_join (tab_name base_table) (tab_name join_t) (after_dot (on_left j))
                        (after_dot (on_right j)) base_rows (scan join_t)
          in if pairs \<noteq> [] then pairs else base_rows)"
  using assms by (simp add: apply_joins_def Let_def)

text \<open>
  C1. \<open>customers\<close> holds one row with \<open>id = 1\<close>, \<open>orders\<close> one row with
  \<open>customer_id = 2\<close>: no pair satisfies \<open>customers.id = orders.customer_id\<close>, and
  \<open>SELECT * FROM customers INNER JOIN orders ON customers.id = orders.customer_id\<close>
  returns one row, the row of \<open>customers\<close>, instead of none.
\<close>

theorem inner_join_without_match_returns_base_rows:
  "scan customers = [\<lparr>row_data = [(''id'', VInt 1)], row_id = 0\<rparr>]
   \<and> scan orders = [\<lparr>row_data = [(''customer_id'', VInt 2)], row_id = 0\<rparr>]
   \<and> \<not> py_eq (row_get \<lparr>row_data = [(''id'', VInt 1)], row_id = 0\<rparr> ''id'')
              (row_get \<lparr>row_data = [(''customer_id'', VInt 2)], row_id = 0\<rparr> ''customer_id'')
   \<and> apply_joins \<lparr>db_name = ''default'', tables = [(''customers'', customers), (''orders'', orders)]\<rparr>
         customers (scan customers)
         [\<lparr>join_type = ''INNER'', join_table = ''orders'', on_left = ''customers.id'',
           on_right = ''orders.customer_id''\<rparr>]
       = Inr [\<lparr>row_data = [(''id'', VInt 1)], row_id = 0\<rparr>]
   \<and> execute_select \<lparr>db_name = ''default'', tables = [(''customers'', customers), (''orders'', orders)]\<rparr>
         \<lparr>sel_columns = [''*''], sel_table = ''customers'',
          sel_joins = [\<lparr>join_type = ''INNER'', join_table = ''orders'', on_left = ''customers.id'',
                        on_right = ''orders.customer_id''\<rparr>],
          sel_where = None, sel_order_by = None, sel_limit = None\<rparr>
       = Inr \<lparr>res_columns = [''id''], res_rows = [[(''id'', VInt 1)]], res_message = None\<rparr>"
  by code_simp

section \<open>LIMIT\<close>

lemma limit_positive:
  "0 < n \<Longrightarrow> apply_limit (Some n) rs = take (nat n) rs \<and> length (apply_limit (Some n) rs) = min (nat n) (length rs)"
  by (simp add: apply_limit_def py_take_def)

lemma limit_zero: "apply_limit (Some 0) rs = rs"
  by (simp add: apply_limit_def)

text \<open>
  C5. On the table of six rows, \<open>SELECT id FROM t LIMIT 0\<close> returns all six rows, not
  \<open>min(0, 6) = 0\<close> rows: the executor applies the limit only when it is not zero.
\<close>

theorem limit_zero_returns_every_row:
  "execute_select \<lparr>db_name = ''default'', tables = [(''t'', t6)]\<rparr>
     \<lparr>sel_columns = [''id''], sel_table = ''t'', sel_joins = [], sel_where = None,
      sel_order_by = None, sel_limit = Some 0\<rparr>
   = Inr \<lparr>res_columns = [''id''],
          res_rows = [[(''id'', VInt 1)], [(''id'', VInt 2)], [(''id'', VInt 3)],
                      [(''id'', VInt 4)], [(''id'', VInt 5)], [(''id'', VInt 6)]],
          res_message = None\<rparr>"
  by code_simp

end
